theory Spec2Isabelle
  imports Complex_Main "HOL-Library.Multiset"
begin

section \<open>Values, errors and numbers\<close>

text \<open>
  The recommendation pipeline of \<^verbatim>\<open>course_selection_assistant.py\<close> and
  \<^verbatim>\<open>student_data_analyzer.py\<close> works on pandas frames. A frame is modelled by the list of
  its rows, in the order \<^verbatim>\<open>iterrows\<close> visits them. Python floats are taken as exact reals;
  a missing number (NaN) is a value of its own, never a real.

  A cell of a catalogue row is \<open>Absent\<close> when the row has no such label (the frame has no
  such column), \<open>Null\<close> when the label is there and the value is missing (SQL NULL, that is
  \<^verbatim>\<open>None\<close> in a text column and NaN in a numeric one), and \<open>Val v\<close> otherwise.
\<close>

datatype py_error = KeyError | ZeroDivisionError | AttributeError | ValueError | NotFittedError

datatype 'a cell = Absent | Null | Val 'a

text \<open>\<^verbatim>\<open>row[label]\<close>: KeyError when the label is absent, else the value (\<open>None\<close> when missing).\<close>

definition lookup :: "'a cell \<Rightarrow> py_error + 'a option" where
  "lookup c = (case c of Absent \<Rightarrow> Inl KeyError | Null \<Rightarrow> Inr None | Val v \<Rightarrow> Inr (Some v))"

text \<open>\<^verbatim>\<open>label in row and pd.notna(row[label])\<close>\<close>

definition present :: "'a cell \<Rightarrow> bool" where
  "present c = (case c of Val v \<Rightarrow> True | _ \<Rightarrow> False)"

text \<open>Sequencing of computations that may raise: the first exception ends the run.\<close>

definition py_bind :: "py_error + 'a \<Rightarrow> ('a \<Rightarrow> py_error + 'b) \<Rightarrow> py_error + 'b" where
  "py_bind m f = (case m of Inl e \<Rightarrow> Inl e | Inr v \<Rightarrow> f v)"

fun py_map :: "('a \<Rightarrow> py_error + 'b) \<Rightarrow> 'a list \<Rightarrow> py_error + 'b list" where
  "py_map f [] = Inr []"
| "py_map f (x # xs) = py_bind (f x) (\<lambda>y. py_bind (py_map f xs) (\<lambda>ys. Inr (y # ys)))"

text \<open>
  \<^verbatim>\<open>round(x, 1)\<close> and numpy's \<^verbatim>\<open>.round(1)\<close>: one decimal, a tie going to the even
  neighbour.
\<close>

definition round_half_even :: "real \<Rightarrow> int" where
  "round_half_even x =
     (let f = \<lfloor>x\<rfloor>; d = x - of_int f
      in if d < 1 / 2 then f else if 1 / 2 < d then f + 1 else if even f then f else f + 1)"

definition round1 :: "real \<Rightarrow> real" where
  "round1 x = of_int (round_half_even (x * 10)) / 10"

text \<open>\<^verbatim>\<open>min(100, round(final_score * 100, 1))\<close>\<close>

definition match_percent :: "real \<Rightarrow> real" where
  "match_percent fs = min 100 (round1 (fs * 100))"

section \<open>Criteria and their weights\<close>

datatype criterion =
  Academic_fit | Tuition_cost | Living_cost | University_ranking | Career_prospects
  | Location | Language

text \<open>The keys of \<^verbatim>\<open>self.criteria_weights\<close>, in the order the dict holds them.\<close>

definition criteria :: "criterion list" where
  "criteria = [Academic_fit, Tuition_cost, Living_cost, University_ranking, Career_prospects,
               Location, Language]"

type_synonym weights = "criterion \<Rightarrow> real"

text \<open>The default weights set by \<^verbatim>\<open>__init__\<close>.\<close>

fun default_weights :: weights where
  "default_weights Academic_fit = 0.20"
| "default_weights Tuition_cost = 0.25"
| "default_weights Living_cost = 0.10"
| "default_weights University_ranking = 0.15"
| "default_weights Career_prospects = 0.15"
| "default_weights Location = 0.10"
| "default_weights Language = 0.05"

text \<open>
  The weight update at the end of \<^verbatim>\<open>collect_preferences\<close>: the ratings are the integers
  read from the prompt, one per criterion; the total is their sum and every weight is
  \<^verbatim>\<open>rating / total\<close>, which raises ZeroDivisionError on a zero total (before any weight
  is overwritten).
\<close>

definition total_importance :: "(criterion \<Rightarrow> int) \<Rightarrow> int" where
  "total_importance rating = sum_list (map rating criteria)"

definition collect_preferences_weights :: "(criterion \<Rightarrow> int) \<Rightarrow> py_error + weights" where
  "collect_preferences_weights rating =
     (if total_importance rating = 0 then Inl ZeroDivisionError
      else Inr (\<lambda>c. real_of_int (rating c) / real_of_int (total_importance rating)))"

definition weight_sum :: "weights \<Rightarrow> real" where
  "weight_sum w = sum_list (map w criteria)"

section \<open>Catalogue rows and preferences\<close>

text \<open>
  A row of the merged programs/universities frame, with the columns the scorer adds:
  \<open>score r c\<close> is the column \<^verbatim>\<open>f'{c}_score'\<close>; a score column is \<open>None\<close> while the frame
  does not have it.
\<close>

record row =
  name_program :: "string cell"
  name_university :: "string cell"
  field :: "string cell"
  level :: "string cell"
  country :: "string cell"
  language :: "string cell"
  tuition_per_year :: "real cell"
  ranking_global :: "real cell"
  duration :: "real cell"
  score :: "criterion \<Rightarrow> real option"
  final_score :: "real option"
  match_percentage :: "real option"
  student_data_boost :: "real option"

text \<open>
  The preference dict. A field is \<open>None\<close> when the key is not in the dict.
  \<open>preferred_countries\<close> is the list under that key, empty when the key is missing
  (every reader treats the two alike). \<open>numeric\<close> holds the remaining number-valued keys
  read by the cohort query; a key may be present with the value \<^verbatim>\<open>None\<close>.
\<close>

record preferences =
  field_of_study :: "string option"
  degree_level :: "string option"
  max_tuition :: "real option"
  max_living_expenses :: "real option"
  preferred_countries :: "string list"
  language_preference :: "string option"
  numeric :: "string \<Rightarrow> real option option"

section \<open>Sub-scores\<close>

text \<open>
  The tuition score of \<^verbatim>\<open>score_programs\<close>:
  \<^verbatim>\<open>1.0 if t <= 0 else min(1.0, max(0.0, (max_tuition - t) / max_tuition))\<close> with
  \<^verbatim>\<open>max_tuition = prefs.get('max_tuition', float('inf'))\<close>. A NaN tuition fails
  \<^verbatim>\<open>t <= 0\<close>; the quotient is then NaN, as it is for an infinite ceiling, and
  \<^verbatim>\<open>max(0.0, nan)\<close> is \<^verbatim>\<open>0.0\<close>. A zero ceiling raises when the division is reached.
\<close>

definition tuition_score :: "real option \<Rightarrow> real option \<Rightarrow> py_error + real" where
  "tuition_score max_t t =
     (case t of
        Some c \<Rightarrow>
          if c \<le> 0 then Inr 1
          else (case max_t of
                  None \<Rightarrow> Inr 0
                | Some m \<Rightarrow> if m = 0 then Inl ZeroDivisionError
                            else Inr (min 1 (max 0 ((m - c) / m))))
      | None \<Rightarrow>
          (case max_t of
             None \<Rightarrow> Inr 0
           | Some m \<Rightarrow> if m = 0 then Inl ZeroDivisionError else Inr 0))"

section \<open>Strings\<close>

text \<open>
  Strings are byte strings; \<^verbatim>\<open>str.lower\<close> and \<^verbatim>\<open>str.split\<close> are modelled on ASCII.
\<close>

definition lower_char :: "char \<Rightarrow> char" where
  "lower_char c =
     (case map_of (zip ''ABCDEFGHIJKLMNOPQRSTUVWXYZ'' ''abcdefghijklmnopqrstuvwxyz'') c of
        None \<Rightarrow> c
      | Some d \<Rightarrow> d)"

definition lower :: "string \<Rightarrow> string" where
  "lower s = map lower_char s"

text \<open>\<^verbatim>\<open>s.replace(a, b)\<close> for single characters.\<close>

definition replace_char :: "char \<Rightarrow> char \<Rightarrow> string \<Rightarrow> string" where
  "replace_char a b s = map (\<lambda>c. if c = a then b else c) s"

definition is_space :: "char \<Rightarrow> bool" where
  "is_space c = (c \<in> set [CHR '' '', CHR 0x09, CHR 0x0A, CHR 0x0B, CHR 0x0C, CHR 0x0D,
                            CHR 0x1C, CHR 0x1D, CHR 0x1E, CHR 0x1F])"

text \<open>\<^verbatim>\<open>s.split()\<close>: the maximal runs of non-blank characters; \<open>w\<close> is the run being read.\<close>

fun split_from :: "string \<Rightarrow> string \<Rightarrow> string list" where
  "split_from w [] = (if w = [] then [] else [w])"
| "split_from w (c # s) =
     (if is_space c then (if w = [] then split_from [] s else w # split_from [] s)
      else split_from (w @ [c]) s)"

definition split :: "string \<Rightarrow> string list" where
  "split s = split_from [] s"

fun starts_with :: "string \<Rightarrow> string \<Rightarrow> bool" where
  "starts_with s [] = True"
| "starts_with [] (c # sub) = False"
| "starts_with (a # s) (c # sub) = (a = c \<and> starts_with s sub)"

text \<open>\<^verbatim>\<open>sub in s\<close> for strings.\<close>

fun contains :: "string \<Rightarrow> string \<Rightarrow> bool" where
  "contains [] sub = (sub = [])"
| "contains (a # s) sub = (starts_with (a # s) sub \<or> contains s sub)"

text \<open>\<^verbatim>\<open>str(v)\<close> of a text cell's value, as an f-string also renders it.\<close>

definition str :: "string option \<Rightarrow> string" where
  "str v = (case v of None \<Rightarrow> ''None'' | Some s \<Rightarrow> s)"

section \<open>The scorer\<close>

definition extract_keywords :: "string \<Rightarrow> string list" where
  "extract_keywords text =
     (if text = [] then []
      else filter (\<lambda>w. 2 < length w)
             (split (replace_char CHR '';'' CHR '' '' (replace_char CHR '','' CHR '' '' (lower text)))))"

definition calculate_academic_fit :: "row \<Rightarrow> string list \<Rightarrow> py_error + real" where
  "calculate_academic_fit r field_keywords =
     (if field_keywords = [] then Inr 0.5
      else py_bind (lookup (name_program r)) (\<lambda>np.
           py_bind (lookup (field r)) (\<lambda>fd.
             let program_text = lower (str np @ '' '' @ str fd);
                 matches = length (filter (\<lambda>keyword. contains program_text keyword) field_keywords)
             in Inr (min 1 (real matches / real (length field_keywords))))))"

definition regions :: "(string \<times> string list) list" where
  "regions =
     [(''europe'', [''germany'', ''france'', ''italy'', ''spain'', ''netherlands'',
                    ''belgium'', ''austria'', ''switzerland'', ''uk'', ''ireland'']),
      (''north_america'', [''usa'', ''united states'', ''canada'', ''mexico'']),
      (''asia'', [''china'', ''japan'', ''south korea'', ''singapore'', ''india'', ''malaysia'']),
      (''oceania'', [''australia'', ''new zealand''])]"

text \<open>
  \<^verbatim>\<open>is_in_same_region\<close>: \<^verbatim>\<open>country.lower()\<close> raises AttributeError on \<^verbatim>\<open>None\<close>; the
  preferred countries are compared as they are given.
\<close>

definition is_in_same_region :: "string option \<Rightarrow> string list \<Rightarrow> py_error + bool" where
  "is_in_same_region cntry preferred =
     (case cntry of
        None \<Rightarrow> Inl AttributeError
      | Some c \<Rightarrow>
          (case find (\<lambda>(region, cs). lower c \<in> set cs) regions of
             None \<Rightarrow> Inr False
           | Some (country_region, cs0) \<Rightarrow>
               Inr (list_ex (\<lambda>p. list_ex (\<lambda>(region, cs). p \<in> set cs \<and> region = country_region)
                                     regions) preferred)))"

definition calculate_confidence :: "row \<Rightarrow> real" where
  "calculate_confidence r =
     (let valid_fields =
            length (filter (\<lambda>b. b)
              [present (name_program r), present (name_university r),
               present (tuition_per_year r), present (ranking_global r),
               present (language r), present (duration r)]);
          confidence = real valid_fields / 6
      in 0.7 + confidence * 0.3)"

text \<open>The ranking tiers; every comparison with NaN is false.\<close>

definition ranking_score :: "real option \<Rightarrow> real" where
  "ranking_score ranking =
     (case ranking of
        None \<Rightarrow> 0.3
      | Some k \<Rightarrow>
          if k \<le> 10 then 1.0 else if k \<le> 50 then 0.9 else if k \<le> 100 then 0.8
          else if k \<le> 200 then 0.7 else if k \<le> 500 then 0.5 else 0.3)"

text \<open>
  The countries frame: which of the two columns it has, and per row the name and the
  average living cost (\<open>None\<close> when missing).
\<close>

record countries_frame =
  has_name :: bool
  has_average_living_cost :: bool
  entries :: "(string option \<times> real option) list"

text \<open>
  The quotient of the living-cost score,
  \<^verbatim>\<open>min(1.0, max(0.0, (max_living - avg_cost) / max_living)) if max_living > 0 else 0.5\<close>
  with \<^verbatim>\<open>max_living = prefs.get('max_living_expenses', float('inf'))\<close>. With no ceiling
  given it is infinite and the quotient NaN, as it is for a NaN average; \<^verbatim>\<open>max(0.0, nan)\<close>
  is \<^verbatim>\<open>0.0\<close>.
\<close>

definition living_ratio :: "real option \<Rightarrow> real option \<Rightarrow> real" where
  "living_ratio max_living avg_cost =
     (case max_living of
        None \<Rightarrow> 0
      | Some m \<Rightarrow>
          if 0 < m then (case avg_cost of None \<Rightarrow> 0 | Some a \<Rightarrow> min 1 (max 0 ((m - a) / m)))
          else 0.5)"

text \<open>
  The living-cost score: the default 0.7 unless the countries frame has a row named as the
  candidate's country and the cost column; the first such row counts.
\<close>

definition living_cost_score ::
  "countries_frame option \<Rightarrow> preferences \<Rightarrow> row \<Rightarrow> py_error + real" where
  "living_cost_score cs prefs r =
     (case cs of
        None \<Rightarrow> Inr 0.7
      | Some fr \<Rightarrow>
          if \<not> has_name fr then Inr 0.7
          else py_bind (lookup (country r)) (\<lambda>c.
            let country_data = filter (\<lambda>(n, a). n \<noteq> None \<and> n = c) (entries fr)
            in if country_data \<noteq> [] \<and> has_average_living_cost fr
               then Inr (living_ratio (max_living_expenses prefs) (snd (hd country_data)))
               else Inr 0.7))"

definition location_score :: "preferences \<Rightarrow> row \<Rightarrow> py_error + real" where
  "location_score prefs r =
     (if preferred_countries prefs = [] then Inr 0.5
      else py_bind (lookup (country r)) (\<lambda>c.
             if c \<noteq> None \<and> the c \<in> set (preferred_countries prefs) then Inr 1.0
             else py_bind (is_in_same_region c (preferred_countries prefs)) (\<lambda>same.
                    Inr (if same then 0.7 else 0.5))))"

definition language_score :: "preferences \<Rightarrow> row \<Rightarrow> py_error + real" where
  "language_score prefs r =
     (if language_preference prefs = Some ''English only'' then
        py_bind (lookup (language r)) (\<lambda>l.
          Inr (if contains (lower (str l)) ''english'' then 1.0 else 0.0))
      else if language_preference prefs = Some ''Any language with English programs'' then
        py_bind (lookup (language r)) (\<lambda>l.
          Inr (if contains (lower (str l)) ''english'' then 1.0 else 0.5))
      else Inr 0.8)"

text \<open>
  The state of a \<^verbatim>\<open>CourseSelectionAssistant\<close> the pipeline reads: the preferences, the
  weights, the countries frame and the merged programs/universities frame (\<open>None\<close> while
  the data is not loaded).
\<close>

record assistant =
  user_preferences :: preferences
  criteria_weights :: weights
  countries :: "countries_frame option"
  merged_data :: "row list option"

text \<open>
  The loop \<^verbatim>\<open>final_score = 0; for criterion, weight in ...: final_score += score * weight\<close>.
\<close>

definition weighted_total :: "weights \<Rightarrow> (criterion \<Rightarrow> real) \<Rightarrow> real" where
  "weighted_total w s = foldl (\<lambda>acc c. acc + s c * w c) 0 criteria"

text \<open>One pass of the scoring loop: the sub-scores in the order the code computes them.\<close>

definition score_row :: "assistant \<Rightarrow> string list \<Rightarrow> row \<Rightarrow> py_error + row" where
  "score_row a field_keywords r =
     py_bind (calculate_academic_fit r field_keywords) (\<lambda>academic_fit.
     py_bind (lookup (tuition_per_year r)) (\<lambda>t.
     py_bind (tuition_score (max_tuition (user_preferences a)) t) (\<lambda>tuition.
     py_bind (lookup (ranking_global r)) (\<lambda>ranking.
     py_bind (living_cost_score (countries a) (user_preferences a) r) (\<lambda>living.
     py_bind (location_score (user_preferences a) r) (\<lambda>loc.
     py_bind (language_score (user_preferences a) r) (\<lambda>lang.
       let s = (\<lambda>c. case c of
                  Academic_fit \<Rightarrow> academic_fit
                | Tuition_cost \<Rightarrow> tuition
                | Living_cost \<Rightarrow> living
                | University_ranking \<Rightarrow> ranking_score ranking
                | Career_prospects \<Rightarrow> 0.7
                | Location \<Rightarrow> loc
                | Language \<Rightarrow> lang);
           confidence = calculate_confidence r;
           fs = weighted_total (criteria_weights a) s * confidence
       in Inr (r\<lparr>score := (\<lambda>c. Some (s c)), final_score := Some fs,
                 match_percentage := Some (match_percent fs)\<rparr>))))))))"

text \<open>
  \<^verbatim>\<open>sort_values(by='final_score', ascending=False)\<close>: descending by the score, rows
  without one last. Pandas leaves the order among equal scores open; here it is the order
  of the input.
\<close>

definition sort_values :: "row list \<Rightarrow> row list" where
  "sort_values rows =
     sort_key (\<lambda>r. - the (final_score r)) (filter (\<lambda>r. final_score r \<noteq> None) rows)
     @ filter (\<lambda>r. final_score r = None) rows"

text \<open>
  \<^verbatim>\<open>score_programs\<close>: \<^verbatim>\<open>None\<close> for no frame or an empty one, else the scored frame,
  sorted; an exception of a row's pass leaves the function.
\<close>

definition score_programs :: "assistant \<Rightarrow> row list option \<Rightarrow> py_error + row list option" where
  "score_programs a filtered_programs =
     (case filtered_programs of
        None \<Rightarrow> Inr None
      | Some rows \<Rightarrow>
          if rows = [] then Inr None
          else let field_keywords =
                     extract_keywords
                       (case field_of_study (user_preferences a) of None \<Rightarrow> [] | Some f \<Rightarrow> f)
               in py_bind (py_map (score_row a field_keywords) rows) (\<lambda>scored_df.
                    Inr (Some (sort_values scored_df))))"

section \<open>The catalogue tables\<close>

text \<open>
  The column labels of the tables \<^verbatim>\<open>programs\<close> and \<^verbatim>\<open>universities\<close>, as
  \<^verbatim>\<open>initialize_database.py\<close> creates them and \<^verbatim>\<open>load_data\<close> reads them with
  \<^verbatim>\<open>SELECT *\<close>.
\<close>

definition programs_columns :: "string list" where
  "programs_columns =
     [''id'', ''name_program'', ''university_id'', ''field'', ''level'', ''language'',
      ''duration'', ''tuition_per_year'', ''application_fee'', ''admission_requirements'']"

definition universities_columns :: "string list" where
  "universities_columns =
     [''id'', ''name'', ''country_id'', ''city_id'', ''city'', ''country'', ''ranking_global'',
      ''ranking_national'', ''student_count'', ''established_year'', ''website'']"

text \<open>
  The labels of a pandas \<^verbatim>\<open>merge\<close> on keys of different names: a label that both frames
  have takes the suffix of its side, every other label stays as it is.
\<close>

definition merge_columns :: "string list \<Rightarrow> string list \<Rightarrow> string \<times> string \<Rightarrow> string list" where
  "merge_columns left right suffixes =
     map (\<lambda>c. if c \<in> set right then c @ fst suffixes else c) left
     @ map (\<lambda>c. if c \<in> set left then c @ snd suffixes else c) right"

text \<open>
  The labels of the frame \<^verbatim>\<open>filter_programs\<close> builds with
  \<^verbatim>\<open>suffixes=('_program', '_university')\<close>.
\<close>

definition merged_columns :: "string list" where
  "merged_columns = merge_columns programs_columns universities_columns (''_program'', ''_university'')"

text \<open>
  A record of each table, with the columns the pipeline reads (\<open>None\<close> for SQL NULL; the
  fields carry the table's initial, the labels being those of \<open>row\<close> too).
\<close>

record program =
  p_id :: int
  p_name_program :: string
  p_university_id :: "int option"
  p_field :: "string option"
  p_level :: "string option"
  p_language :: "string option"
  p_duration :: "real option"
  p_tuition_per_year :: "real option"

record university =
  u_id :: int
  u_name :: string
  u_country :: "string option"
  u_ranking_global :: "real option"

definition cell_of :: "'a option \<Rightarrow> 'a cell" where
  "cell_of v = (case v of None \<Rightarrow> Null | Some x \<Rightarrow> Val x)"

text \<open>
  \<^verbatim>\<open>self.programs.merge(self.universities, left_on='university_id', right_on='id', ...)\<close>:
  a row for every program and university with that id, in the order of the programs. The
  university's name stays under the label \<^verbatim>\<open>name\<close>, which only one of the tables has, so
  the row has no cell labelled \<^verbatim>\<open>name_university\<close>; the score columns come later.
\<close>

definition merged_row :: "program \<Rightarrow> university \<Rightarrow> row" where
  "merged_row p u =
     \<lparr>name_program = Val (p_name_program p), name_university = Absent,
      field = cell_of (p_field p), level = cell_of (p_level p), country = cell_of (u_country u),
      language = cell_of (p_language p), tuition_per_year = cell_of (p_tuition_per_year p),
      ranking_global = cell_of (u_ranking_global u), duration = cell_of (p_duration p),
      score = (\<lambda>c. None), final_score = None, match_percentage = None,
      student_data_boost = None\<rparr>"

definition merge :: "program list \<Rightarrow> university list \<Rightarrow> row list" where
  "merge programs universities =
     concat (map (\<lambda>p. map (merged_row p)
                         (filter (\<lambda>u. p_university_id p = Some (u_id u)) universities))
               programs)"

section \<open>The catalogue filter\<close>

fun py_filter :: "('a \<Rightarrow> py_error + bool) \<Rightarrow> 'a list \<Rightarrow> py_error + 'a list" where
  "py_filter p [] = Inr []"
| "py_filter p (x # xs) =
     py_bind (p x) (\<lambda>b. py_bind (py_filter p xs) (\<lambda>ys. Inr (if b then x # ys else ys)))"

text \<open>
  The masks of \<^verbatim>\<open>filter_programs\<close>, row by row. A column the frame lacks raises KeyError; a
  missing value never passes a mask. In
  \<^verbatim>\<open>field.str.lower().str.contains(f) | name_program.str.lower().str.contains(f)\<close>
  pandas keeps a missing left operand missing and reads a missing right operand as false, and
  the missing results are dropped with the false ones. \<^verbatim>\<open>str.contains\<close> reads its
  pattern as a regular expression; the masks here cover the patterns with no metacharacter,
  for which that is the plain substring test.
\<close>

definition field_mask :: "string \<Rightarrow> row \<Rightarrow> py_error + bool" where
  "field_mask f r =
     py_bind (lookup (field r)) (\<lambda>fd.
     py_bind (lookup (name_program r)) (\<lambda>np.
       Inr (case fd of
              None \<Rightarrow> False
            | Some ft \<Rightarrow>
                contains (lower ft) f
                \<or> (case np of None \<Rightarrow> False | Some nt \<Rightarrow> contains (lower nt) f))))"

definition level_mask :: "string \<Rightarrow> row \<Rightarrow> py_error + bool" where
  "level_mask l r =
     py_bind (lookup (level r)) (\<lambda>v. Inr (case v of None \<Rightarrow> False | Some t \<Rightarrow> lower t = l))"

definition tuition_mask :: "real \<Rightarrow> row \<Rightarrow> py_error + bool" where
  "tuition_mask m r =
     py_bind (lookup (tuition_per_year r)) (\<lambda>v. Inr (case v of None \<Rightarrow> False | Some t \<Rightarrow> t \<le> m))"

definition country_mask :: "string list \<Rightarrow> row \<Rightarrow> py_error + bool" where
  "country_mask cs r =
     py_bind (lookup (country r)) (\<lambda>v.
       Inr (case v of None \<Rightarrow> False | Some t \<Rightarrow> lower t \<in> set cs))"

definition language_mask :: "row \<Rightarrow> py_error + bool" where
  "language_mask r =
     py_bind (lookup (language r)) (\<lambda>v.
       Inr (case v of None \<Rightarrow> False | Some t \<Rightarrow> lower t = ''english''))"

text \<open>
  \<^verbatim>\<open>filter_programs\<close>: \<^verbatim>\<open>None\<close> while the data is not loaded, else the merged frame after
  the hard constraints, each applied to what the one before left. \<open>merged_data\<close> is the
  merged frame, \<open>merge\<close> of the two tables once they are loaded.
\<close>

definition filter_programs :: "assistant \<Rightarrow> py_error + row list option" where
  "filter_programs a =
     (case merged_data a of
        None \<Rightarrow> Inr None
      | Some merged \<Rightarrow>
          let prefs = user_preferences a
          in py_bind (case field_of_study prefs of
                        None \<Rightarrow> Inr merged
                      | Some f \<Rightarrow> if f = [] then Inr merged
                                  else py_filter (field_mask (lower f)) merged) (\<lambda>d1.
             py_bind (case degree_level prefs of
                        None \<Rightarrow> Inr d1
                      | Some l \<Rightarrow> if l = [] then Inr d1
                                  else py_filter (level_mask (lower l)) d1) (\<lambda>d2.
             py_bind (case max_tuition prefs of
                        None \<Rightarrow> Inr d2
                      | Some m \<Rightarrow> py_filter (tuition_mask m) d2) (\<lambda>d3.
             py_bind (if preferred_countries prefs = [] then Inr d3
                      else py_filter (country_mask (map lower (preferred_countries prefs))) d3)
               (\<lambda>d4.
             py_bind (if language_preference prefs = Some ''English only''
                      then py_filter language_mask d4 else Inr d4) (\<lambda>d5.
               Inr (Some d5)))))))"

section \<open>The diversity reranker\<close>

text \<open>The value read from a cell that is there.\<close>

definition cell_value :: "'a cell \<Rightarrow> 'a option" where
  "cell_value c = (case c of Val v \<Rightarrow> Some v | _ \<Rightarrow> None)"

text \<open>
  The loop of \<^verbatim>\<open>apply_diversity_boosting\<close> over the copy of the frame, with the three
  sets of values seen so far. Reading a column the row lacks raises KeyError.
\<close>

fun diversity_pass ::
  "string option set \<Rightarrow> string option set \<Rightarrow> string option set \<Rightarrow> row list \<Rightarrow> py_error + row list" where
  "diversity_pass countries_seen universities_seen fields_seen [] = Inr []"
| "diversity_pass countries_seen universities_seen fields_seen (r # rows) =
     py_bind (lookup (country r)) (\<lambda>cntry.
     py_bind (lookup (name_university r)) (\<lambda>university.
     py_bind (lookup (field r)) (\<lambda>fld.
       let diversity_boost =
             (if cntry \<notin> countries_seen then 0.03 else 0)
             + (if university \<notin> universities_seen then 0.02 else 0)
             + (if fld \<notin> fields_seen then 0.01 else 0)
       in (case final_score r of
             None \<Rightarrow> Inl KeyError
           | Some s \<Rightarrow>
               py_bind (diversity_pass (insert cntry countries_seen)
                          (insert university universities_seen) (insert fld fields_seen) rows)
                 (\<lambda>rest. Inr (r\<lparr>final_score := Some (s + diversity_boost),
                                  match_percentage := Some (match_percent (s + diversity_boost))\<rparr>
                               # rest))))))"

text \<open>
  \<^verbatim>\<open>apply_diversity_boosting\<close>: the frame as it came for \<^verbatim>\<open>None\<close> and for an empty one;
  else the pass and the sort, and the frame as it came when the pass raised.
\<close>

definition apply_diversity_boosting :: "row list option \<Rightarrow> row list option" where
  "apply_diversity_boosting scored_programs =
     (case scored_programs of
        None \<Rightarrow> None
      | Some rows \<Rightarrow>
          if rows = [] then scored_programs
          else (case diversity_pass {} {} {} rows of
                  Inl e \<Rightarrow> scored_programs
                | Inr diverse_programs \<Rightarrow> Some (sort_values diverse_programs)))"

text \<open>
  What the properties of the pass speak of: row \<open>i\<close> shows a value of \<open>f\<close> that no earlier
  row shows; the bonus such first occurrences earn; a row every column of which the pass
  reads is there.
\<close>

definition first_seen :: "(row \<Rightarrow> 'a) \<Rightarrow> row list \<Rightarrow> nat \<Rightarrow> bool" where
  "first_seen f rows i = (f (rows ! i) \<notin> f ` set (take i rows))"

definition diversity_bonus :: "row list \<Rightarrow> nat \<Rightarrow> real" where
  "diversity_bonus rows i =
     (if first_seen (\<lambda>r. cell_value (country r)) rows i then 0.03 else 0)
     + (if first_seen (\<lambda>r. cell_value (name_university r)) rows i then 0.02 else 0)
     + (if first_seen (\<lambda>r. cell_value (field r)) rows i then 0.01 else 0)"

definition boostable :: "row \<Rightarrow> bool" where
  "boostable r =
     (country r \<noteq> Absent \<and> name_university r \<noteq> Absent \<and> field r \<noteq> Absent \<and> final_score r \<noteq> None)"

text \<open>The bonus of row \<open>i\<close> for a pass that starts with the given sets.\<close>

definition bonus_from ::
  "string option set \<Rightarrow> string option set \<Rightarrow> string option set \<Rightarrow> row list \<Rightarrow> nat \<Rightarrow> real" where
  "bonus_from cs us fs rows i =
     (if cell_value (country (rows ! i)) \<notin> cs \<union> (\<lambda>r. cell_value (country r)) ` set (take i rows) then 0.03 else 0)
     + (if cell_value (name_university (rows ! i)) \<notin> us \<union> (\<lambda>r. cell_value (name_university r)) ` set (take i rows) then 0.02 else 0)
     + (if cell_value (field (rows ! i)) \<notin> fs \<union> (\<lambda>r. cell_value (field r)) ` set (take i rows) then 0.01 else 0)"

section \<open>The cohort index\<close>

text \<open>
  A historical record: its numeric cells by column name (\<open>None\<close> for NaN, and for a
  column the file lacks) and the destination (\<open>None\<close> when missing). The frame lists the
  columns the file has.
\<close>

record student =
  features :: "string \<Rightarrow> real option"
  final_destination_country :: "string option"

record student_frame =
  columns :: "string list"
  students :: "student list"

record nearest_neighbors =
  n_neighbors :: nat
  fit_X :: "real list list option"

record analyzer =
  student_data :: "student_frame option"
  model :: "nearest_neighbors option"
  feature_columns :: "string list option"
  normalized_features :: "real option list list option"

text \<open>
  Pandas' \<^verbatim>\<open>mean\<close> and \<^verbatim>\<open>std\<close> of a column: over the values that are there, NaN when
  there is none (for \<^verbatim>\<open>std\<close>, with its divisor n - 1: when there are fewer than two).
\<close>

definition mean :: "real option list \<Rightarrow> real option" where
  "mean xs =
     (let vs = map the (filter (\<lambda>x. x \<noteq> None) xs)
      in if vs = [] then None else Some (sum_list vs / real (length vs)))"

definition std :: "real option list \<Rightarrow> real option" where
  "std xs =
     (let vs = map the (filter (\<lambda>x. x \<noteq> None) xs)
      in if length vs < 2 then None
         else let m = sum_list vs / real (length vs)
              in Some (sqrt (sum_list (map (\<lambda>v. (v - m)\<^sup>2) vs) / real (length vs - 1))))"

text \<open>
  \<^verbatim>\<open>fillna\<close> of one cell, and \<^verbatim>\<open>(x - mean) / std\<close>. \<open>None\<close> is a float that is not
  finite: NaN, or the quotient by a zero deviation.
\<close>

definition fillna :: "real option \<Rightarrow> real option \<Rightarrow> real option" where
  "fillna x m = (case x of None \<Rightarrow> m | Some v \<Rightarrow> Some v)"

definition standardize :: "real option \<Rightarrow> real option \<Rightarrow> real option \<Rightarrow> real option" where
  "standardize x m s =
     (case (x, m, s) of
        (Some v, Some mu, Some sd) \<Rightarrow> if sd = 0 then None else Some ((v - mu) / sd)
      | _ \<Rightarrow> None)"

definition column_values :: "student_frame \<Rightarrow> string \<Rightarrow> real option list" where
  "column_values sd col = map (\<lambda>s. features s col) (students sd)"

definition filled_column :: "student_frame \<Rightarrow> string \<Rightarrow> real option list" where
  "filled_column sd col = map (\<lambda>x. fillna x (mean (column_values sd col))) (column_values sd col)"

definition candidate_features :: "string list" where
  "candidate_features =
     [''current_gpa'', ''tuition_budget'', ''living_expense_budget'',
      ''university_ranking_importance'', ''cost_sensitivity_score'', ''career_importance_score'']"

definition finite_frame :: "real option list list \<Rightarrow> bool" where
  "finite_frame X = list_all (list_all (\<lambda>x. x \<noteq> None)) X"

text \<open>The normalized feature frame: per record, the standardized cell of each feature column.\<close>

definition normalize_frame :: "student_frame \<Rightarrow> string list \<Rightarrow> real option list list" where
  "normalize_frame sd cols =
     map (\<lambda>s. map (\<lambda>col.
            standardize (fillna (features s col) (mean (column_values sd col)))
              (mean (filled_column sd col)) (std (filled_column sd col))) cols)
       (students sd)"

text \<open>
  \<^verbatim>\<open>build_recommendation_model\<close>, returning the analyzer as the call leaves it and the
  call's result. \<^verbatim>\<open>NearestNeighbors.fit\<close> raises on a frame with a value that is not
  finite; the exception is caught, after the attributes were assigned.
\<close>

definition build_recommendation_model :: "bool \<Rightarrow> analyzer \<Rightarrow> analyzer \<times> bool" where
  "build_recommendation_model sklearn_available a =
     (case student_data a of
        None \<Rightarrow> (a, False)
      | Some sd \<Rightarrow>
          if students sd = [] then (a, False)
          else if \<not> sklearn_available then (a, False)
          else
            let cols = filter (\<lambda>col. col \<in> set (columns sd)) candidate_features;
                a1 = a\<lparr>feature_columns := Some cols\<rparr>
            in if cols = [] then (a1, False)
               else
                 let normalized = normalize_frame sd cols;
                     a2 = a1\<lparr>normalized_features := Some normalized\<rparr>;
                     unfitted = \<lparr>n_neighbors = min 10 (length normalized), fit_X = None\<rparr>;
                     a3 = a2\<lparr>model := Some unfitted\<rparr>
                 in if finite_frame normalized
                    then (a3\<lparr>model := Some (unfitted\<lparr>fit_X := Some (map (map the) normalized)\<rparr>)\<rparr>, True)
                    else (a3, False))"

text \<open>The value of a query for a feature column: the aliases first, then the column's own name.\<close>

definition query_value :: "preferences \<Rightarrow> string \<Rightarrow> real option" where
  "query_value prefs col =
     (if col = ''current_gpa'' \<and> numeric prefs ''gpa'' \<noteq> None then the (numeric prefs ''gpa'')
      else if col = ''university_ranking_importance'' \<and> numeric prefs ''ranking_importance'' \<noteq> None
        then the (numeric prefs ''ranking_importance'')
      else if col = ''cost_sensitivity_score'' \<and> numeric prefs ''cost_sensitivity'' \<noteq> None
        then the (numeric prefs ''cost_sensitivity'')
      else (case numeric prefs col of None \<Rightarrow> None | Some v \<Rightarrow> v))"

definition query_features :: "student_frame \<Rightarrow> string list \<Rightarrow> preferences \<Rightarrow> real option list" where
  "query_features sd cols prefs =
     map (\<lambda>col. case query_value prefs col of
                   None \<Rightarrow> mean (column_values sd col)
                 | Some v \<Rightarrow> Some v) cols"

text \<open>
  Column \<open>i\<close> of the normalized frame, and the query standardized with
  \<^verbatim>\<open>self.normalized_features.mean()\<close> and \<^verbatim>\<open>.std()\<close>, as the code does;
  \<^verbatim>\<open>means[i]\<close> is read by position, the series being labelled by column names.
\<close>

definition frame_column :: "real option list list \<Rightarrow> nat \<Rightarrow> real option list" where
  "frame_column X i = map (\<lambda>r. r ! i) X"

definition normalized_query :: "real option list list \<Rightarrow> real option list \<Rightarrow> real option list" where
  "normalized_query X q =
     map (\<lambda>i. standardize (q ! i) (mean (frame_column X i)) (std (frame_column X i)))
       [0..<length q]"

text \<open>
  \<^verbatim>\<open>kneighbors\<close> of scikit-learn, by its contract: it raises unless the model is fitted, the
  query finite and as long as the fitted rows, and the count between one and the number of
  fitted rows; else it gives the
  indices of the nearest rows, nearest first (by the squared distance, which orders as the
  distance does). The order among rows at one distance is the library's; here the lower
  index goes first.
\<close>

definition squared_distance :: "real list \<Rightarrow> real list \<Rightarrow> real" where
  "squared_distance x y = sum_list (map (\<lambda>(u, v). (u - v)\<^sup>2) (zip x y))"

definition nearest :: "real list list \<Rightarrow> real list \<Rightarrow> nat \<Rightarrow> nat list" where
  "nearest X q k = take k (sort_key (\<lambda>i. squared_distance q (X ! i)) [0..<length X])"

definition kneighbors :: "nearest_neighbors \<Rightarrow> real option list \<Rightarrow> nat \<Rightarrow> py_error + nat list" where
  "kneighbors m q k =
     (case fit_X m of
        None \<Rightarrow> Inl NotFittedError
      | Some X \<Rightarrow>
          if \<not> list_all (\<lambda>x. x \<noteq> None) q then Inl ValueError
          else if \<not> list_all (\<lambda>x. length x = length q) X then Inl ValueError
          else if k = 0 \<or> length X < k then Inl ValueError
          else Inr (nearest X (map the q) k))"

text \<open>
  \<^verbatim>\<open>find_similar_students\<close>: \<^verbatim>\<open>None\<close> without a model or a normalized frame, and on any
  exception: no feature columns or no data to read, a normalized frame whose width is not
  the number of feature columns (\<^verbatim>\<open>means[i]\<close> or the library raises), an exception of
  \<^verbatim>\<open>kneighbors\<close>, an index \<^verbatim>\<open>iloc\<close> does not have.
\<close>

definition find_similar_students :: "analyzer \<Rightarrow> preferences \<Rightarrow> nat \<Rightarrow> student list option" where
  "find_similar_students a prefs n =
     (case (model a, normalized_features a) of
        (Some m, Some X) \<Rightarrow>
          (case (feature_columns a, student_data a) of
             (Some cols, Some sd) \<Rightarrow>
               if \<not> list_all (\<lambda>r. length r = length cols) X then None
               else
                 (case kneighbors m (normalized_query X (query_features sd cols prefs))
                         (min n (length X)) of
                    Inl e \<Rightarrow> None
                  | Inr indices \<Rightarrow>
                      if list_all (\<lambda>i. i < length (students sd)) indices
                      then Some (map (\<lambda>i. students sd ! i) indices) else None)
           | _ \<Rightarrow> None)
      | _ \<Rightarrow> None)"

section \<open>The cohort enhancer\<close>

text \<open>
  The boost of a candidate's country: \<^verbatim>\<open>value_counts\<close> counts the destinations that are
  there, and \<^verbatim>\<open>total_destinations\<close> is the sum of the counts.
\<close>

definition popularity_boost :: "string option list \<Rightarrow> string option \<Rightarrow> real" where
  "popularity_boost destinations cntry =
     (let total_destinations = length (filter (\<lambda>d. d \<noteq> None) destinations);
          count = (case cntry of
                     None \<Rightarrow> 0
                   | Some c \<Rightarrow> length (filter (\<lambda>d. d = Some c) destinations));
          popularity = real count / real (max 1 total_destinations)
      in popularity * 0.05)"

text \<open>One pass of the loop of \<^verbatim>\<open>enhance_recommendations\<close>.\<close>

definition boost_row :: "string option list \<Rightarrow> row \<Rightarrow> py_error + row" where
  "boost_row destinations r =
     py_bind (lookup (country r)) (\<lambda>cntry.
       let b = popularity_boost destinations cntry
       in (case final_score r of
             None \<Rightarrow> Inr r
           | Some s \<Rightarrow>
               let r1 = r\<lparr>student_data_boost := Some b, final_score := Some (s + b)\<rparr>
               in (case match_percentage r of
                     None \<Rightarrow> Inr r1
                   | Some p \<Rightarrow> Inr (r1\<lparr>match_percentage := Some (match_percent (s + b))\<rparr>))))"

text \<open>
  The \<^verbatim>\<open>try\<close> block of \<^verbatim>\<open>enhance_recommendations\<close>. The frames here have no
  \<^verbatim>\<open>explanation\<close> column (the pipeline adds explanations later), so
  \<^verbatim>\<open>_add_student_data_explanations\<close> changes nothing.
\<close>

definition enhance_body ::
  "analyzer \<Rightarrow> student_frame \<Rightarrow> row list \<Rightarrow> preferences \<Rightarrow> py_error + row list" where
  "enhance_body a sd rows prefs =
     (case find_similar_students a prefs 10 of
        None \<Rightarrow> Inr rows
      | Some similar_students \<Rightarrow>
          if similar_students = [] then Inr rows
          else if ''final_destination_country'' \<notin> set (columns sd) then Inl KeyError
          else py_bind (py_map (boost_row (map final_destination_country similar_students)) rows)
                 (\<lambda>enhanced. Inr (if list_ex (\<lambda>r. final_score r \<noteq> None) enhanced
                                   then sort_values enhanced else enhanced)))"

definition enhance_recommendations ::
  "analyzer \<Rightarrow> row list option \<Rightarrow> preferences \<Rightarrow> row list option" where
  "enhance_recommendations a recommendations prefs =
     (case recommendations of
        None \<Rightarrow> None
      | Some rows \<Rightarrow>
          if rows = [] then recommendations
          else (case student_data a of
                  None \<Rightarrow> recommendations
                | Some sd \<Rightarrow>
                    if students sd = [] then recommendations
                    else (case enhance_body a sd rows prefs of
                            Inl e \<Rightarrow> recommendations
                          | Inr enhanced \<Rightarrow> Some enhanced)))"

section \<open>Explanations and the request handler\<close>

text \<open>A clause of an explanation, for the sentence the code renders.\<close>

datatype reason =
  Academic_interest | Within_budget int | Well_ranked "real option"
  | Preferred_country "string option" | Language_match

text \<open>\<^verbatim>\<open>int(x)\<close> of a float: towards zero.\<close>

definition py_int :: "real \<Rightarrow> int" where
  "py_int x = (if 0 \<le> x then \<lfloor>x\<rfloor> else \<lceil>x\<rceil>)"

text \<open>\<^verbatim>\<open>program[f'{c}_score'] > bound\<close>\<close>

definition score_above :: "row \<Rightarrow> criterion \<Rightarrow> real \<Rightarrow> py_error + bool" where
  "score_above r c bound = (case score r c of None \<Rightarrow> Inl KeyError | Some s \<Rightarrow> Inr (bound < s))"

text \<open>
  The clauses of one program, in the order \<^verbatim>\<open>generate_explanations\<close> adds them. The
  preferences hold the key \<^verbatim>\<open>preferred_countries\<close> (both callers set it).
\<close>

definition explain :: "preferences \<Rightarrow> row \<Rightarrow> py_error + reason list" where
  "explain prefs r =
     py_bind (score_above r Academic_fit 0.7) (\<lambda>b1.
     py_bind (score_above r Tuition_cost 0.8) (\<lambda>b2.
     py_bind (if b2 then
                py_bind (lookup (tuition_per_year r)) (\<lambda>t.
                  case t of None \<Rightarrow> Inl ValueError | Some v \<Rightarrow> Inr [Within_budget (py_int v)])
              else Inr []) (\<lambda>budget.
     py_bind (score_above r University_ranking 0.7) (\<lambda>b3.
     py_bind (if b3 then py_bind (lookup (ranking_global r)) (\<lambda>k. Inr [Well_ranked k])
              else Inr []) (\<lambda>ranked.
     py_bind (lookup (country r)) (\<lambda>c.
     py_bind (lookup (language r)) (\<lambda>l.
       Inr ((if b1 then [Academic_interest] else []) @ budget @ ranked
            @ (if c \<noteq> None \<and> the c \<in> set (preferred_countries prefs)
               then [Preferred_country c] else [])
            @ (if contains (lower (str l)) ''english''
                  \<and> language_preference prefs
                      \<in> {Some ''English only'', Some ''Any language with English programs''}
               then [Language_match] else []))))))))) "

definition generate_explanations ::
  "assistant \<Rightarrow> row list \<Rightarrow> nat \<Rightarrow> py_error + reason list list" where
  "generate_explanations a programs limit = py_map (explain (user_preferences a)) (take limit programs)"

text \<open>
  \<^verbatim>\<open>validate_preferences\<close> and \<^verbatim>\<open>enrich_preferences\<close> of \<^verbatim>\<open>app.py\<close>.
\<close>

definition validate_preferences :: "preferences \<Rightarrow> bool" where
  "validate_preferences prefs = (field_of_study prefs \<noteq> None \<and> degree_level prefs \<noteq> None)"

definition enrich_preferences :: "preferences \<Rightarrow> preferences" where
  "enrich_preferences prefs =
     prefs\<lparr>max_tuition := (case max_tuition prefs of None \<Rightarrow> Some 50000 | Some m \<Rightarrow> Some m),
           language_preference :=
             (case language_preference prefs of
                None \<Rightarrow> Some ''Any language with English programs''
              | Some l \<Rightarrow> Some l)\<rparr>"

text \<open>
  The answer of \<^verbatim>\<open>get_recommendations\<close>: the recommendations with their explanations
  (\<^verbatim>\<open>"success": True\<close>), or \<^verbatim>\<open>"success": False\<close> with the HTTP status.
\<close>

datatype response = Recommendations "(row \<times> reason list) list" | Failure nat

text \<open>
  The pipeline inside the handler's \<^verbatim>\<open>try\<close>. \<^verbatim>\<open>enhanced_programs.head(10)\<close> is
  evaluated before the test \<^verbatim>\<open>enhanced_programs is not None\<close> and raises AttributeError on
  \<^verbatim>\<open>None\<close>.
\<close>

definition recommendation_pipeline ::
  "analyzer \<Rightarrow> assistant \<Rightarrow> py_error + (row \<times> reason list) list" where
  "recommendation_pipeline student_analyzer a =
     py_bind (filter_programs a) (\<lambda>filtered_programs.
     py_bind (score_programs a filtered_programs) (\<lambda>scored_programs.
       let diverse = apply_diversity_boosting scored_programs;
           enhanced_programs = enhance_recommendations student_analyzer diverse (user_preferences a)
       in (case enhanced_programs of
             None \<Rightarrow> Inl AttributeError
           | Some rows \<Rightarrow>
               py_bind (generate_explanations a (take 10 rows) 10) (\<lambda>explanations.
                 Inr (zip (take 10 rows) explanations)))))"

text \<open>
  \<^verbatim>\<open>get_recommendations\<close> for a database that connects and loads: \<open>loaded\<close> holds the
  frames read from it; the assistant is a fresh one, with the default weights and the
  enriched preferences. Every exception becomes the status 500.
\<close>

definition get_recommendations :: "analyzer \<Rightarrow> assistant \<Rightarrow> preferences \<Rightarrow> response" where
  "get_recommendations student_analyzer loaded preferences =
     (if \<not> validate_preferences preferences then Failure 400
      else let a = loaded\<lparr>user_preferences := enrich_preferences preferences,
                          criteria_weights := default_weights\<rparr>
           in (case recommendation_pipeline student_analyzer a of
                 Inl e \<Rightarrow> Failure 500
               | Inr result \<Rightarrow> Recommendations result))"

section \<open>Example data\<close>

subsection \<open>The ranking scenario\<close>

text \<open>
  Two candidates, A (cost 20000, rank 5, country X) and B (cost 60000, rank 300, country Y),
  scored under a tuition ceiling of 50000 with all the weight on cost and reputation.
\<close>

fun scenario_weights :: weights where
  "scenario_weights Tuition_cost = 0.5"
| "scenario_weights University_ranking = 0.5"
| "scenario_weights c = 0"

definition scenario_preferences :: preferences where
  "scenario_preferences =
     \<lparr>field_of_study = Some ''Computer Science'', degree_level = Some ''Master'',
      max_tuition = Some 50000, max_living_expenses = None, preferred_countries = [],
      language_preference = Some ''Any language with English programs'',
      numeric = (\<lambda>k. None)\<rparr>"

definition scenario_A :: row where
  "scenario_A =
     \<lparr>name_program = Val ''Computer Science MSc'', name_university = Val ''Alpha University'',
      field = Val ''Computing'', level = Val ''Master'', country = Val ''X'',
      language = Val ''English'', tuition_per_year = Val 20000, ranking_global = Val 5,
      duration = Val 2, score = (\<lambda>c. None), final_score = None, match_percentage = None,
      student_data_boost = None\<rparr>"

definition scenario_B :: row where
  "scenario_B =
     \<lparr>name_program = Val ''Data Science MSc'', name_university = Val ''Beta University'',
      field = Val ''Computer Science'', level = Val ''Master'', country = Val ''Y'',
      language = Val ''German'', tuition_per_year = Val 60000, ranking_global = Val 300,
      duration = Val 2, score = (\<lambda>c. None), final_score = None, match_percentage = None,
      student_data_boost = None\<rparr>"

definition scenario_assistant :: assistant where
  "scenario_assistant =
     \<lparr>user_preferences = scenario_preferences, criteria_weights = scenario_weights,
      countries = None, merged_data = Some [scenario_B, scenario_A]\<rparr>"

definition scored_A :: row where
  "scored_A =
     scenario_A\<lparr>score := (\<lambda>c. Some (case c of Academic_fit \<Rightarrow> 1 | Tuition_cost \<Rightarrow> 0.6
                     | Living_cost \<Rightarrow> 0.7 | University_ranking \<Rightarrow> 1 | Career_prospects \<Rightarrow> 0.7
                     | Location \<Rightarrow> 0.5 | Language \<Rightarrow> 1)),
                final_score := Some 0.8, match_percentage := Some 80\<rparr>"

definition scored_B :: row where
  "scored_B =
     scenario_B\<lparr>score := (\<lambda>c. Some (case c of Academic_fit \<Rightarrow> 1 | Tuition_cost \<Rightarrow> 0
                     | Living_cost \<Rightarrow> 0.7 | University_ranking \<Rightarrow> 0.5 | Career_prospects \<Rightarrow> 0.7
                     | Location \<Rightarrow> 0.5 | Language \<Rightarrow> 0.5)),
                final_score := Some 0.25, match_percentage := Some 25\<rparr>"

definition scenario_scored :: "row list" where
  "scenario_scored = [scored_A, scored_B]"

subsection \<open>A scored frame with a repeated country, university and field\<close>

definition diversity_example :: "row list" where
  "diversity_example =
     [scored_A, scored_B, scenario_A\<lparr>final_score := Some 0.2, match_percentage := Some 20\<rparr>]"

subsection \<open>A scored frame without the university's name\<close>

definition unnamed_catalogue :: "row list" where
  "unnamed_catalogue = map (\<lambda>r. r\<lparr>name_university := Absent\<rparr>) scenario_scored"

subsection \<open>The scenario as a database\<close>

text \<open>The two candidates as records of the tables, loaded and merged.\<close>

definition catalogue_programs :: "program list" where
  "catalogue_programs =
     [\<lparr>p_id = 1, p_name_program = ''Data Science MSc'', p_university_id = Some 2,
       p_field = Some ''Computer Science'', p_level = Some ''Master'', p_language = Some ''German'',
       p_duration = Some 2, p_tuition_per_year = Some 60000\<rparr>,
      \<lparr>p_id = 2, p_name_program = ''Computer Science MSc'', p_university_id = Some 1,
       p_field = Some ''Computing'', p_level = Some ''Master'', p_language = Some ''English'',
       p_duration = Some 2, p_tuition_per_year = Some 20000\<rparr>]"

definition catalogue_universities :: "university list" where
  "catalogue_universities =
     [\<lparr>u_id = 1, u_name = ''Alpha University'', u_country = Some ''X'', u_ranking_global = Some 5\<rparr>,
      \<lparr>u_id = 2, u_name = ''Beta University'', u_country = Some ''Y'', u_ranking_global = Some 300\<rparr>]"

definition catalogue_assistant :: assistant where
  "catalogue_assistant =
     scenario_assistant\<lparr>merged_data := Some (merge catalogue_programs catalogue_universities)\<rparr>"

definition catalogue_scored :: "row list" where
  "catalogue_scored =
     [scored_A\<lparr>name_university := Absent, final_score := Some 0.76, match_percentage := Some 76\<rparr>]"

subsection \<open>A cohort of three records\<close>

definition cohort_student :: "real \<Rightarrow> string option \<Rightarrow> student" where
  "cohort_student gpa dest =
     \<lparr>features = (\<lambda>col. if col = ''current_gpa'' then Some gpa else None),
      final_destination_country = dest\<rparr>"

definition cohort_frame :: student_frame where
  "cohort_frame =
     \<lparr>columns = [''student_id'', ''current_gpa'', ''final_destination_country''],
      students = [cohort_student 0 (Some ''X''), cohort_student 2 None, cohort_student 4 None]\<rparr>"

definition cohort_loaded :: analyzer where
  "cohort_loaded = \<lparr>student_data = Some cohort_frame, model = None, feature_columns = None,
                     normalized_features = None\<rparr>"

definition cohort_analyzer :: analyzer where
  "cohort_analyzer =
     \<lparr>student_data = Some cohort_frame,
      model = Some \<lparr>n_neighbors = 3, fit_X = Some [[-1], [0], [1]]\<rparr>,
      feature_columns = Some [''current_gpa''],
      normalized_features = Some [[Some (-1)], [Some 0], [Some 1]]\<rparr>"

text \<open>The same cohort read from a file with no destination column.\<close>

definition cohort_no_destination :: analyzer where
  "cohort_no_destination =
     cohort_analyzer\<lparr>student_data := Some (cohort_frame\<lparr>columns := [''student_id'', ''current_gpa'']\<rparr>)\<rparr>"

text \<open>A query that gives the grade point average 2, and a request no program matches.\<close>

definition gpa_query :: preferences where
  "gpa_query = scenario_preferences\<lparr>numeric := (\<lambda>k. if k = ''gpa'' then Some (Some 2) else None)\<rparr>"

definition medicine_request :: preferences where
  "medicine_request =
     \<lparr>field_of_study = Some ''Medicine'', degree_level = Some ''Master'', max_tuition = None,
      max_living_expenses = None, preferred_countries = [], language_preference = None,
      numeric = (\<lambda>k. None)\<rparr>"

section \<open>Properties\<close>

lemma weight_sum_default: "weight_sum default_weights = 1"
  by (simp add: weight_sum_def criteria_def)

lemma weight_sum_normalised:
  assumes "total_importance rating \<noteq> 0"
  shows "weight_sum (\<lambda>c. real_of_int (rating c) / real_of_int (total_importance rating)) = 1"
proof -
  let ?t = "real_of_int (total_importance rating)"
  have nz: "?t \<noteq> 0" using assms by simp
  have "weight_sum (\<lambda>c. real_of_int (rating c) / ?t)
          = (\<Sum>c\<leftarrow>criteria. real_of_int (rating c)) / ?t"
    by (simp add: weight_sum_def criteria_def add_divide_distrib)
  also have "(\<Sum>c\<leftarrow>criteria. real_of_int (rating c)) = ?t"
    by (simp add: total_importance_def criteria_def)
  finally show ?thesis using nz by simp
qed

text \<open>
  C5: for ratings with a positive total the weight update succeeds, the weight it stores for
  every criterion is the criterion's rating divided by the total, and the stored weights sum
  to 1; the default weights, used when no update was made, sum to 1 as well.
\<close>

theorem C5_weights_sum_to_one:
  "weight_sum default_weights = 1 \<and>
   (0 < total_importance rating \<longrightarrow>
      (\<exists>w. collect_preferences_weights rating = Inr w \<and>
           (\<forall>c. w c = real_of_int (rating c) / real_of_int (total_importance rating)) \<and>
           weight_sum w = 1))"
  using weight_sum_normalised [of rating]
  by (auto simp: weight_sum_default collect_preferences_weights_def)

theorem C5_weights_sum_to_one_witness:
  "0 < total_importance (\<lambda>c. if c = Tuition_cost then 10 else 5) \<and>
   (\<exists>w. collect_preferences_weights (\<lambda>c. if c = Tuition_cost then 10 else 5) = Inr w
        \<and> w Tuition_cost = 1 / 4 \<and> w Academic_fit = 1 / 8 \<and> w Language = 1 / 8
        \<and> weight_sum w = 1)"
proof -
  let ?r = "\<lambda>c. if c = Tuition_cost then (10::int) else 5"
  have t: "total_importance ?r = 40" by (simp add: total_importance_def criteria_def)
  then have pos: "0 < total_importance ?r" by simp
  from C5_weights_sum_to_one [of ?r]
  have "0 < total_importance ?r \<longrightarrow>
      (\<exists>w. collect_preferences_weights ?r = Inr w \<and>
           (\<forall>c. w c = real_of_int (?r c) / real_of_int (total_importance ?r)) \<and>
           weight_sum w = 1)"
    by (rule conjunct2)
  with pos obtain w where
    w: "collect_preferences_weights ?r = Inr w" "weight_sum w = 1" and
    each: "\<forall>c. w c = real_of_int (?r c) / real_of_int (total_importance ?r)"
    by blast
  from each [rule_format, of Tuition_cost] each [rule_format, of Academic_fit]
    each [rule_format, of Language]
  have "w Tuition_cost = 1 / 4" "w Academic_fit = 1 / 8" "w Language = 1 / 8"
    by (simp_all add: t)
  with w pos show ?thesis by blast
qed

subsection \<open>Exceptions and rounding\<close>

lemma py_bind_Inl [simp]: "py_bind (Inl e) f = Inl e"
  by (simp add: py_bind_def)

lemma py_bind_Inr [simp]: "py_bind (Inr v) f = f v"
  by (simp add: py_bind_def)

lemma py_bind_eq_Inr: "py_bind m f = Inr y \<longleftrightarrow> (\<exists>v. m = Inr v \<and> f v = Inr y)"
  by (cases m) simp_all

lemma py_map_Inr: "py_map f xs = Inr ys \<Longrightarrow> list_all2 (\<lambda>x y. f x = Inr y) xs ys"
proof (induction xs arbitrary: ys)
  case Nil
  then show ?case by simp
next
  case (Cons x xs)
  then show ?case by (auto simp: py_bind_eq_Inr)
qed

lemma round_half_even_le: "x \<le> of_int n \<Longrightarrow> round_half_even x \<le> n"
  unfolding round_half_even_def Let_def by (auto split: if_splits) linarith+

lemma round_half_even_ge: "of_int n \<le> x \<Longrightarrow> n \<le> round_half_even x"
  unfolding round_half_even_def Let_def by (auto split: if_splits) linarith+

lemma round_half_even_int: "round_half_even (of_int n) = n"
  by (simp add: round_half_even_def)

lemma match_percent_le: "match_percent fs \<le> 100"
  by (simp add: match_percent_def)

lemma round1_hundred_le: "fs \<le> 1 \<Longrightarrow> round1 (fs * 100) \<le> 100"
proof -
  assume "fs \<le> 1"
  then have "fs * 100 * 10 \<le> of_int 1000" by simp
  then have "round_half_even (fs * 100 * 10) \<le> 1000" by (rule round_half_even_le)
  then show ?thesis by (simp add: round1_def)
qed

lemma round1_hundred_ge: "1 \<le> fs \<Longrightarrow> 100 \<le> round1 (fs * 100)"
proof -
  assume "1 \<le> fs"
  then have "of_int 1000 \<le> fs * 100 * 10" by simp
  then have "1000 \<le> round_half_even (fs * 100 * 10)" by (rule round_half_even_ge)
  then show ?thesis by (simp add: round1_def)
qed

lemma round1_100: "round1 100 = 100"
  using round_half_even_int [of 1000] by (simp add: round1_def)

lemma match_percent_cap: "match_percent fs = round1 (min 1 fs * 100)"
proof (cases "fs \<le> 1")
  case True
  then show ?thesis using round1_hundred_le [of fs] by (simp add: match_percent_def min_def)
next
  case False
  then have "1 \<le> fs" by simp
  from round1_hundred_ge [OF this] False show ?thesis
    by (simp add: match_percent_def min_def round1_100)
qed

lemma weighted_total_sum: "weighted_total w s = (\<Sum>c\<leftarrow>criteria. s c * w c)"
  by (simp add: weighted_total_def criteria_def)

lemma tuition_score_bounds: "tuition_score m t = Inr v \<Longrightarrow> 0 \<le> v \<and> v \<le> 1"
  by (auto simp: tuition_score_def split: option.splits if_splits)

lemma academic_fit_bounds: "calculate_academic_fit r kw = Inr v \<Longrightarrow> 0 \<le> v \<and> v \<le> 1"
  by (auto simp: calculate_academic_fit_def py_bind_eq_Inr Let_def split: if_splits)

lemma ranking_score_bounds: "0 \<le> ranking_score k \<and> ranking_score k \<le> 1"
  by (auto simp: ranking_score_def split: option.splits)

lemma living_ratio_bounds: "0 \<le> living_ratio m a \<and> living_ratio m a \<le> 1"
  by (auto simp: living_ratio_def split: option.splits)

lemma living_cost_score_bounds: "living_cost_score cs p r = Inr v \<Longrightarrow> 0 \<le> v \<and> v \<le> 1"
  using living_ratio_bounds
  by (auto simp: living_cost_score_def py_bind_eq_Inr Let_def split: option.split_asm if_split_asm)

lemma location_score_bounds: "location_score p r = Inr v \<Longrightarrow> 0 \<le> v \<and> v \<le> 1"
  by (auto simp: location_score_def py_bind_eq_Inr split: if_splits)

lemma language_score_bounds: "language_score p r = Inr v \<Longrightarrow> 0 \<le> v \<and> v \<le> 1"
  by (auto simp: language_score_def py_bind_eq_Inr split: if_splits)

lemma score_row_result:
  assumes "score_row a kw x = Inr y"
  shows "\<exists>s t rk. (\<forall>c. 0 \<le> s c \<and> s c \<le> 1) \<and>
             lookup (tuition_per_year x) = Inr t \<and>
             tuition_score (max_tuition (user_preferences a)) t = Inr (s Tuition_cost) \<and>
             lookup (ranking_global x) = Inr rk \<and> s University_ranking = ranking_score rk \<and>
             s Career_prospects = 0.7 \<and>
             y = x\<lparr>score := (\<lambda>c. Some (s c)),
                   final_score := Some (weighted_total (criteria_weights a) s * calculate_confidence x),
                   match_percentage :=
                     Some (match_percent (weighted_total (criteria_weights a) s * calculate_confidence x))\<rparr>"
proof -
  from assms obtain af t tu rk lv lo la where
    af: "calculate_academic_fit x kw = Inr af" and
    t: "lookup (tuition_per_year x) = Inr t" and
    rk: "lookup (ranking_global x) = Inr rk" and
    tu: "tuition_score (max_tuition (user_preferences a)) t = Inr tu" and
    lv: "living_cost_score (countries a) (user_preferences a) x = Inr lv" and
    lo: "location_score (user_preferences a) x = Inr lo" and
    la: "language_score (user_preferences a) x = Inr la" and
    y: "y = (let s = (\<lambda>c. case c of
                  Academic_fit \<Rightarrow> af
                | Tuition_cost \<Rightarrow> tu
                | Living_cost \<Rightarrow> lv
                | University_ranking \<Rightarrow> ranking_score rk
                | Career_prospects \<Rightarrow> 0.7
                | Location \<Rightarrow> lo
                | Language \<Rightarrow> la);
           confidence = calculate_confidence x;
           fs = weighted_total (criteria_weights a) s * confidence
       in x\<lparr>score := (\<lambda>c. Some (s c)), final_score := Some fs,
                 match_percentage := Some (match_percent fs)\<rparr>)"
    unfolding score_row_def py_bind_eq_Inr Let_def by auto
  let ?s = "\<lambda>c. case c of
                  Academic_fit \<Rightarrow> af
                | Tuition_cost \<Rightarrow> tu
                | Living_cost \<Rightarrow> lv
                | University_ranking \<Rightarrow> ranking_score rk
                | Career_prospects \<Rightarrow> (0.7::real)
                | Location \<Rightarrow> lo
                | Language \<Rightarrow> la"
  have "0 \<le> ?s c \<and> ?s c \<le> 1" for c
    using academic_fit_bounds [OF af] tuition_score_bounds [OF tu] living_cost_score_bounds [OF lv]
      location_score_bounds [OF lo] language_score_bounds [OF la] ranking_score_bounds [of rk]
    by (cases c) simp_all
  moreover have "y = x\<lparr>score := (\<lambda>c. Some (?s c)),
                   final_score := Some (weighted_total (criteria_weights a) ?s * calculate_confidence x),
                   match_percentage :=
                     Some (match_percent (weighted_total (criteria_weights a) ?s * calculate_confidence x))\<rparr>"
    using y by (simp add: Let_def)
  ultimately show ?thesis using t tu rk
    by (intro exI [of _ ?s] exI [of _ t] exI [of _ rk]) simp
qed

lemma calculate_confidence_update [simp]:
  "calculate_confidence (x\<lparr>score := s, final_score := f, match_percentage := m\<rparr>) = calculate_confidence x"
  by (simp add: calculate_confidence_def)

lemma calculate_confidence_bounds: "0.7 \<le> calculate_confidence r \<and> calculate_confidence r \<le> 1"
  by (simp add: calculate_confidence_def Let_def)

subsection \<open>The sorted, scored frame\<close>

lemma sort_values_scored:
  assumes "\<forall>r\<in>set rows. final_score r \<noteq> None"
  shows "sort_values rows = sort_key (\<lambda>r. - the (final_score r)) rows"
proof -
  have "filter (\<lambda>r. final_score r \<noteq> None) rows = rows" using assms by (simp add: filter_id_conv)
  moreover have "filter (\<lambda>r. final_score r = None) rows = []" using assms by (simp add: filter_empty_conv)
  ultimately show ?thesis by (simp add: sort_values_def)
qed

lemma mset_sort_values: "mset (sort_values rows) = mset rows"
proof -
  have "mset (sort_values rows)
          = filter_mset (\<lambda>r. final_score r \<noteq> None) (mset rows)
            + filter_mset (\<lambda>r. \<not> final_score r \<noteq> None) (mset rows)"
    by (simp add: sort_values_def)
  then show ?thesis by (simp only: multiset_partition [symmetric])
qed

lemma set_sort_values: "set (sort_values rows) = set rows"
  using mset_sort_values [of rows] by (metis set_mset_mset)

lemma length_sort_values: "length (sort_values rows) = length rows"
  using mset_sort_values [of rows] by (metis size_mset)

lemma sorted_sort_values:
  assumes "\<forall>r\<in>set rows. final_score r \<noteq> None"
  shows "sorted_wrt (\<lambda>x y. the (final_score y) \<le> the (final_score x)) (sort_values rows)"
proof -
  have "sorted (map (\<lambda>r. - the (final_score r)) (sort_key (\<lambda>r. - the (final_score r)) rows))"
    by (rule sorted_sort_key)
  then show ?thesis by (simp add: sort_values_scored [OF assms] sorted_map)
qed

lemma py_map_score_rows:
  assumes "py_map (score_row a kw) rows = Inr scored"
  shows "length scored = length rows \<and> (\<forall>y\<in>set scored. \<exists>x\<in>set rows. score_row a kw x = Inr y)"
proof -
  from py_map_Inr [OF assms] have l: "list_all2 (\<lambda>x y. score_row a kw x = Inr y) rows scored" .
  then have "length scored = length rows" by (simp add: list_all2_lengthD)
  moreover have "\<exists>x\<in>set rows. score_row a kw x = Inr y" if "y \<in> set scored" for y
  proof -
    from that obtain i where i: "i < length scored" "y = scored ! i" by (auto simp: in_set_conv_nth)
    with l have "score_row a kw (rows ! i) = Inr y" "rows ! i \<in> set rows"
      by (auto simp: list_all2_conv_all_nth)
    then show ?thesis by blast
  qed
  ultimately show ?thesis by blast
qed

lemma score_programs_Some:
  assumes "score_programs a fp = Inr (Some t)"
  shows "\<exists>rows scored. fp = Some rows \<and> rows \<noteq> [] \<and>
           py_map (score_row a (extract_keywords
              (case field_of_study (user_preferences a) of None \<Rightarrow> [] | Some f \<Rightarrow> f))) rows = Inr scored \<and>
           t = sort_values scored"
  using assms
  by (auto simp: score_programs_def py_bind_eq_Inr Let_def split: option.splits if_splits)

text \<open>
  C1: when the scorer returns a frame, every row's final score is its confidence times the
  sum over the seven criteria of sub-score times weight; its match percentage is
  \<open>min 100 (round1 (fs * 100))\<close>, which is at most 100 and equals the rounding of the
  capped score; the frame is sorted by final score, descending, and has a row per candidate.
\<close>

theorem C1_score_aggregation:
  assumes "score_programs a fp = Inr (Some t)"
  shows "(\<forall>r\<in>set t. \<exists>fs. final_score r = Some fs \<and>
            fs = calculate_confidence r * (\<Sum>c\<leftarrow>criteria. the (score r c) * criteria_weights a c) \<and>
            match_percentage r = Some (min 100 (round1 (fs * 100))) \<and>
            min 100 (round1 (fs * 100)) \<le> 100 \<and>
            min 100 (round1 (fs * 100)) = round1 (min 1 fs * 100)) \<and>
         sorted_wrt (\<lambda>x y. the (final_score y) \<le> the (final_score x)) t \<and>
         (\<exists>rows. fp = Some rows \<and> length t = length rows)"
proof -
  from score_programs_Some [OF assms] obtain rows scored kw where
    fp: "fp = Some rows" and pm: "py_map (score_row a kw) rows = Inr scored" and
    t: "t = sort_values scored" by blast
  note ps = py_map_score_rows [OF pm]
  have row: "\<exists>fs. final_score r = Some fs \<and>
            fs = calculate_confidence r * (\<Sum>c\<leftarrow>criteria. the (score r c) * criteria_weights a c) \<and>
            match_percentage r = Some (min 100 (round1 (fs * 100))) \<and>
            min 100 (round1 (fs * 100)) \<le> 100 \<and>
            min 100 (round1 (fs * 100)) = round1 (min 1 fs * 100)" if "r \<in> set scored" for r
  proof -
    from ps that obtain x where "score_row a kw x = Inr r" by blast
    from score_row_result [OF this] obtain s where
      r: "r = x\<lparr>score := (\<lambda>c. Some (s c)),
                 final_score := Some (weighted_total (criteria_weights a) s * calculate_confidence x),
                 match_percentage :=
                   Some (match_percent (weighted_total (criteria_weights a) s * calculate_confidence x))\<rparr>"
      by blast
    let ?fs = "weighted_total (criteria_weights a) s * calculate_confidence x"
    have "final_score r = Some ?fs" by (subst r) simp
    moreover have "?fs = calculate_confidence r * (\<Sum>c\<leftarrow>criteria. the (score r c) * criteria_weights a c)"
      by (subst (1 2) r) (simp add: weighted_total_sum)
    moreover have "match_percentage r = Some (min 100 (round1 (?fs * 100)))"
      by (subst r) (simp add: match_percent_def)
    moreover have "min 100 (round1 (?fs * 100)) = round1 (min 1 ?fs * 100)"
      using match_percent_cap [of ?fs] by (simp add: match_percent_def)
    ultimately show ?thesis by simp
  qed
  then have "\<forall>r\<in>set scored. final_score r \<noteq> None" by fastforce
  from sorted_sort_values [OF this] row ps fp show ?thesis
    by (simp add: t set_sort_values length_sort_values)
qed


text \<open>
  C6: for a positive ceiling the cost score is 1 for a cost of at most 0 and the clamped
  quotient otherwise; it does not increase when the cost does; a cost at or above the
  ceiling scores 0.
\<close>

theorem C6_cost_fit:
  assumes "0 < m"
  shows "tuition_score (Some m) (Some c) = Inr (if c \<le> 0 then 1 else min 1 (max 0 ((m - c) / m))) \<and>
         (c \<le> c' \<longrightarrow> (\<exists>s s'. tuition_score (Some m) (Some c) = Inr s \<and>
                              tuition_score (Some m) (Some c') = Inr s' \<and> s' \<le> s)) \<and>
         (m \<le> c \<longrightarrow> tuition_score (Some m) (Some c) = Inr 0)"
proof -
  have 1: "tuition_score (Some m) (Some c) = Inr (if c \<le> 0 then 1 else min 1 (max 0 ((m - c) / m)))" for c
    using assms by (simp add: tuition_score_def)
  have 2: "(if c' \<le> 0 then 1 else min 1 (max 0 ((m - c') / m)))
            \<le> (if c \<le> 0 then 1 else min 1 (max 0 ((m - c) / m)))" if "c \<le> c'"
  proof -
    have "(m - c') / m \<le> (m - c) / m" using that assms by (simp add: divide_right_mono)
    then show ?thesis using that by (auto simp: min_def max_def)
  qed
  have 3: "min 1 (max 0 ((m - c) / m)) = 0" if "m \<le> c"
  proof -
    have "(m - c) / m \<le> 0" using that assms by (simp add: divide_le_0_iff)
    then show ?thesis by (simp add: max_def)
  qed
  show ?thesis using 1 2 3 assms by auto
qed

subsection \<open>The scenario, evaluated\<close>

lemma scenario_keywords:
  "extract_keywords ''Computer Science'' = [''computer'', ''science'']"
  by (simp add: extract_keywords_def lower_def lower_char_def split_def is_space_def replace_char_def)

lemma scenario_fit_A: "calculate_academic_fit scenario_A [''computer'', ''science''] = Inr 1"
  by (simp add: calculate_academic_fit_def scenario_A_def lookup_def str_def lower_def lower_char_def)

lemma scenario_fit_B: "calculate_academic_fit scenario_B [''computer'', ''science''] = Inr 1"
  by (simp add: calculate_academic_fit_def scenario_B_def lookup_def str_def lower_def lower_char_def)

lemma scenario_lang_A: "language_score scenario_preferences scenario_A = Inr 1"
  by (simp add: language_score_def scenario_A_def scenario_preferences_def lookup_def str_def lower_def lower_char_def)

lemma scenario_lang_B: "language_score scenario_preferences scenario_B = Inr 0.5"
  by (simp add: language_score_def scenario_B_def scenario_preferences_def lookup_def str_def lower_def lower_char_def)

lemma round1_800: "round1 80 = 80"
  using round_half_even_int [of 800] by (simp add: round1_def)

lemma round1_250: "round1 25 = 25"
  using round_half_even_int [of 250] by (simp add: round1_def)

lemma scenario_row_A:
  "score_row scenario_assistant [''computer'', ''science''] scenario_A = Inr scored_A"
  apply (simp add: score_row_def scenario_fit_A scenario_assistant_def scenario_lang_A
        living_cost_score_def location_score_def Let_def weighted_total_def criteria_def
        scenario_scored_def scored_A_def scored_B_def)
  apply (simp add: scenario_A_def scenario_preferences_def lookup_def tuition_score_def present_def round1_800
        calculate_confidence_def match_percent_def ranking_score_def)
  apply (simp add: fun_eq_iff ranking_score_def split: criterion.split)
  done

lemma scenario_row_B:
  "score_row scenario_assistant [''computer'', ''science''] scenario_B = Inr scored_B"
  apply (simp add: score_row_def scenario_fit_B scenario_assistant_def scenario_lang_B
        living_cost_score_def location_score_def Let_def weighted_total_def criteria_def
        scenario_scored_def scored_A_def scored_B_def)
  apply (simp add: scenario_B_def scenario_preferences_def lookup_def tuition_score_def present_def round1_250
        calculate_confidence_def match_percent_def ranking_score_def)
  apply (simp add: fun_eq_iff ranking_score_def split: criterion.split)
  done

lemma sort_values_pair:
  assumes "final_score x = Some u" and "final_score y = Some v" and "v < u"
  shows "sort_values [y, x] = [x, y] \<and> sort_values [x, y] = [x, y]"
  using assms by (simp add: sort_values_def)

lemma scenario_run:
  "score_programs scenario_assistant (Some [scenario_B, scenario_A]) = Inr (Some scenario_scored)"
proof -
  have kw: "extract_keywords (case field_of_study (user_preferences scenario_assistant) of
               None \<Rightarrow> [] | Some f \<Rightarrow> f) = [''computer'', ''science'']"
    by (simp add: scenario_assistant_def scenario_preferences_def scenario_keywords)
  have "final_score (scored_A) = Some 0.8" "final_score (scored_B) = Some 0.25"
    by (simp_all add: scenario_scored_def scored_A_def scored_B_def)
  from sort_values_pair [OF this]
  have "sort_values [scored_B, scored_A] = scenario_scored"
    by (simp add: scenario_scored_def scored_A_def scored_B_def)
  then show ?thesis
    by (simp add: score_programs_def kw scenario_row_A scenario_row_B)
qed

lemma weighted_total_scenario:
  "weighted_total scenario_weights s = s Tuition_cost * 0.5 + s University_ranking * 0.5"
  by (simp add: weighted_total_def criteria_def)

lemma scenario_row_scores:
  assumes "score_row a kw x = Inr y"
    and "tuition_per_year x = Val c" and "ranking_global x = Val k"
    and "max_tuition (user_preferences a) = Some 50000"
    and "criteria_weights a = scenario_weights"
  shows "\<exists>tu. tuition_score (Some 50000) (Some c) = Inr tu \<and> score y Tuition_cost = Some tu \<and>
           score y University_ranking = Some (ranking_score (Some k)) \<and>
           final_score y = Some ((tu * 0.5 + ranking_score (Some k) * 0.5) * calculate_confidence x) \<and>
           country y = country x"
proof -
  from score_row_result [OF assms(1)] obtain s t rk where
    t: "lookup (tuition_per_year x) = Inr t" and
    tu: "tuition_score (max_tuition (user_preferences a)) t = Inr (s Tuition_cost)" and
    rk: "lookup (ranking_global x) = Inr rk" "s University_ranking = ranking_score rk" and
    y: "y = x\<lparr>score := (\<lambda>c. Some (s c)),
               final_score := Some (weighted_total (criteria_weights a) s * calculate_confidence x),
               match_percentage :=
                 Some (match_percent (weighted_total (criteria_weights a) s * calculate_confidence x))\<rparr>"
    by blast
  from t assms(2) have t': "t = Some c" by (simp add: lookup_def)
  from rk assms(3) have rk': "s University_ranking = ranking_score (Some k)" by (simp add: lookup_def)
  have "tuition_score (Some 50000) (Some c) = Inr (s Tuition_cost)" using tu t' assms(4) by simp
  moreover have "score y Tuition_cost = Some (s Tuition_cost)" by (subst y) simp
  moreover have "score y University_ranking = Some (ranking_score (Some k))" using rk' by (subst y) simp
  moreover have "final_score y
      = Some ((s Tuition_cost * 0.5 + ranking_score (Some k) * 0.5) * calculate_confidence x)"
    using rk' by (subst y) (simp add: assms(5) weighted_total_scenario)
  moreover have "country y = country x" by (subst y) simp
  ultimately show ?thesis by blast
qed

text \<open>
  C9, as the code has it: in the scenario the cost scores are 0.6 for A (not 1.0) and 0
  for B, the reputation scores 1.0 and 0.5, and A ends first with the strictly larger final
  score, whatever the other attributes of the two rows and the order they come in.
\<close>

theorem C9_scenario:
  assumes A: "tuition_per_year A = Val 20000" "ranking_global A = Val 5" "country A = Val ''X''"
    and B: "tuition_per_year B = Val 60000" "ranking_global B = Val 300" "country B = Val ''Y''"
    and a: "max_tuition (user_preferences a) = Some 50000" "criteria_weights a = scenario_weights"
    and rows: "rows = [A, B] \<or> rows = [B, A]"
    and run: "score_programs a (Some rows) = Inr (Some t)"
  shows "\<exists>A' B'. t = [A', B'] \<and> country A' = Val ''X'' \<and> country B' = Val ''Y'' \<and>
           score A' Tuition_cost = Some 0.6 \<and> score B' Tuition_cost = Some 0 \<and>
           score A' University_ranking = Some 1 \<and> score B' University_ranking = Some 0.5 \<and>
           (\<exists>u v. final_score A' = Some u \<and> final_score B' = Some v \<and> v < u)"
proof -
  from score_programs_Some [OF run] obtain scored kw where
    pm: "py_map (score_row a kw) rows = Inr scored" and t: "t = sort_values scored" by blast
  from pm rows obtain A' B' where
    A': "score_row a kw A = Inr A'" and B': "score_row a kw B = Inr B'" and
    scored: "scored = [A', B'] \<or> scored = [B', A']"
    by (auto simp: py_bind_eq_Inr)
  from scenario_row_scores [OF A' A(1,2) a] have
    tA: "score A' Tuition_cost = Some 0.6" and rA: "score A' University_ranking = Some 1" and
    fA: "final_score A' = Some (0.8 * calculate_confidence A)" and cA: "country A' = Val ''X''"
    by (auto simp: tuition_score_def ranking_score_def A(3))
  from scenario_row_scores [OF B' B(1,2) a] have
    tB: "score B' Tuition_cost = Some 0" and rB: "score B' University_ranking = Some 0.5" and
    fB: "final_score B' = Some (0.25 * calculate_confidence B)" and cB: "country B' = Val ''Y''"
    by (auto simp: tuition_score_def ranking_score_def B(3))
  have lt: "0.25 * calculate_confidence B < 0.8 * calculate_confidence A"
    using calculate_confidence_bounds [of A] calculate_confidence_bounds [of B] by simp
  from sort_values_pair [OF fA fB lt] scored have "t = [A', B']" by (auto simp: t)
  with tA rA fA cA tB rB fB cB lt show ?thesis by blast
qed

theorem C9_scenario_witness:
  "score_programs scenario_assistant (Some [scenario_B, scenario_A]) = Inr (Some scenario_scored) \<and>
   (\<exists>A' B'. scenario_scored = [A', B'] \<and> country A' = Val ''X'' \<and> country B' = Val ''Y'' \<and>
           score A' Tuition_cost = Some 0.6 \<and> score B' Tuition_cost = Some 0 \<and>
           score A' University_ranking = Some 1 \<and> score B' University_ranking = Some 0.5 \<and>
           (\<exists>u v. final_score A' = Some u \<and> final_score B' = Some v \<and> v < u))"
  using C9_scenario [of scenario_A scenario_B scenario_assistant "[scenario_B, scenario_A]" scenario_scored]
    scenario_run
  by (simp add: scenario_A_def scenario_B_def scenario_assistant_def scenario_preferences_def)

text \<open>
  C9 as stated fails: candidate A, ranked first in the scored scenario, has the cost
  score 0.6, not 1.0.
\<close>

theorem C9_scenario_counterexample:
  "score_programs scenario_assistant (Some [scenario_B, scenario_A]) = Inr (Some scenario_scored) \<and>
   tuition_per_year (scored_A) = Val 20000 \<and>
   score (scored_A) Tuition_cost \<noteq> Some 1"
  using scenario_run by (simp add: scenario_scored_def scored_A_def scored_B_def scenario_A_def)

theorem C1_score_aggregation_witness:
  "score_programs scenario_assistant (Some [scenario_B, scenario_A]) = Inr (Some scenario_scored) \<and>
   sorted_wrt (\<lambda>x y. the (final_score y) \<le> the (final_score x)) scenario_scored \<and>
   (\<exists>fs. final_score (scored_A) = Some fs \<and>
      fs = calculate_confidence (scored_A) *
           (\<Sum>c\<leftarrow>criteria. the (score (scored_A) c) * criteria_weights scenario_assistant c) \<and>
      match_percentage (scored_A) = Some (min 100 (round1 (fs * 100))) \<and>
      min 100 (round1 (fs * 100)) \<le> 100 \<and>
      min 100 (round1 (fs * 100)) = round1 (min 1 fs * 100))"
proof -
  have "scored_A \<in> set scenario_scored" by (simp add: scenario_scored_def scored_A_def scored_B_def)
  with C1_score_aggregation [OF scenario_run] scenario_run show ?thesis by blast
qed


theorem C6_cost_fit_witness:
  "(0::real) < 50000 \<and> (20000::real) \<le> 60000 \<and>
   tuition_score (Some 50000) (Some 20000) = Inr 0.6 \<and>
   tuition_score (Some 50000) (Some 60000) = Inr 0"
  using C6_cost_fit [of 50000 20000 60000] C6_cost_fit [of 50000 60000 60000] by simp

subsection \<open>The diversity pass\<close>

lemma lookup_Inr: "lookup c = Inr v \<longleftrightarrow> c \<noteq> Absent \<and> v = cell_value c"
  by (cases c) (auto simp: lookup_def cell_value_def)

lemma lookup_Inl: "lookup c = Inl e \<longleftrightarrow> c = Absent \<and> e = KeyError"
  by (cases c) (auto simp: lookup_def)

lemma bonus_from_empty: "bonus_from {} {} {} rows i = diversity_bonus rows i"
  by (simp add: bonus_from_def diversity_bonus_def first_seen_def)

lemma bonus_from_0:
  "bonus_from cs us fs (r # rows) 0 =
     (if cell_value (country r) \<notin> cs then 0.03 else 0)
     + (if cell_value (name_university r) \<notin> us then 0.02 else 0)
     + (if cell_value (field r) \<notin> fs then 0.01 else 0)"
  by (simp add: bonus_from_def)

lemma bonus_from_Suc:
  "bonus_from cs us fs (r # rows) (Suc i) =
     bonus_from (insert (cell_value (country r)) cs) (insert (cell_value (name_university r)) us)
       (insert (cell_value (field r)) fs) rows i"
  by (simp add: bonus_from_def)

lemma diversity_pass_rows:
  assumes "diversity_pass cs us fs rows = Inr t"
  shows "length t = length rows \<and>
         (\<forall>i<length rows. \<exists>s. final_score (rows ! i) = Some s \<and> boostable (rows ! i) \<and>
            t ! i = (rows ! i)\<lparr>final_score := Some (s + bonus_from cs us fs rows i),
                       match_percentage := Some (match_percent (s + bonus_from cs us fs rows i))\<rparr>)"
  using assms
proof (induction rows arbitrary: cs us fs t)
  case Nil
  then show ?case by simp
next
  case (Cons r rows)
  from Cons.prems obtain s rest where
    ok: "country r \<noteq> Absent" "name_university r \<noteq> Absent" "field r \<noteq> Absent" and
    s: "final_score r = Some s" and
    rest: "diversity_pass (insert (cell_value (country r)) cs) (insert (cell_value (name_university r)) us)
             (insert (cell_value (field r)) fs) rows = Inr rest" and
    t: "t = r\<lparr>final_score := Some (s + bonus_from cs us fs (r # rows) 0),
              match_percentage := Some (match_percent (s + bonus_from cs us fs (r # rows) 0))\<rparr> # rest"
    by (auto simp: py_bind_eq_Inr lookup_Inr Let_def bonus_from_0 split: option.splits)
  note ih = Cons.IH [OF rest]
  show ?case
  proof (intro conjI allI impI)
    show "length t = length (r # rows)" using ih t by simp
  next
    fix i assume "i < length (r # rows)"
    then show "\<exists>s. final_score ((r # rows) ! i) = Some s \<and> boostable ((r # rows) ! i) \<and>
            t ! i = ((r # rows) ! i)\<lparr>final_score := Some (s + bonus_from cs us fs (r # rows) i),
                       match_percentage := Some (match_percent (s + bonus_from cs us fs (r # rows) i))\<rparr>"
      using ih t s ok by (cases i) (auto simp: bonus_from_Suc boostable_def)
  qed
qed

lemma diversity_pass_succeeds:
  assumes "\<forall>r\<in>set rows. boostable r"
  shows "\<exists>t. diversity_pass cs us fs rows = Inr t"
  using assms
proof (induction rows arbitrary: cs us fs)
  case Nil
  then show ?case by simp
next
  case (Cons r rows)
  from Cons.prems have b: "boostable r" and rest: "\<forall>x\<in>set rows. boostable x" by simp_all
  from b obtain s where s: "final_score r = Some s" by (auto simp: boostable_def)
  from b have l: "lookup (country r) = Inr (cell_value (country r))"
    "lookup (name_university r) = Inr (cell_value (name_university r))"
    "lookup (field r) = Inr (cell_value (field r))"
    by (simp_all add: lookup_Inr boostable_def)
  from Cons.IH [OF rest] obtain t where
    "diversity_pass (insert (cell_value (country r)) cs) (insert (cell_value (name_university r)) us)
       (insert (cell_value (field r)) fs) rows = Inr t" by blast
  then show ?case by (simp add: l s Let_def)
qed

lemma first_seen_once:
  "card {i. i < length rows \<and> f (rows ! i) = v \<and> first_seen f rows i} \<le> 1"
proof -
  let ?A = "{i. i < length rows \<and> f (rows ! i) = v \<and> first_seen f rows i}"
  have fin: "finite ?A" by simp
  have "i = j" if "i \<in> ?A" "j \<in> ?A" for i j
  proof (rule ccontr)
    assume ne: "i \<noteq> j"
    have aux: False if "a < b" "b < length rows" "f (rows ! a) = v" "f (rows ! b) = v" "first_seen f rows b" for a b
    proof -
      have "rows ! a \<in> set (take b rows)" using that(1,2) by (auto simp: in_set_conv_nth intro!: exI [of _ a])
      then have "f (rows ! b) \<in> f ` set (take b rows)" using that(3,4) by force
      with that(5) show False by (simp add: first_seen_def)
    qed
    from ne consider "i < j" | "j < i" by linarith
    then show False using that aux by cases auto
  qed
  then show ?thesis using fin by (simp add: card_le_Suc0_iff_eq)
qed

lemma diversity_pass_scores:
  assumes "diversity_pass {} {} {} rows = Inr t" and "i < length rows"
  shows "\<exists>s. final_score (rows ! i) = Some s \<and>
           final_score (t ! i) = Some (s + diversity_bonus rows i) \<and>
           match_percentage (t ! i) = Some (match_percent (s + diversity_bonus rows i)) \<and>
           country (t ! i) = country (rows ! i) \<and> name_university (t ! i) = name_university (rows ! i) \<and>
           field (t ! i) = field (rows ! i)"
proof -
  from diversity_pass_rows [OF assms(1)] assms(2) obtain s where
    s: "final_score (rows ! i) = Some s" and
    t: "t ! i = (rows ! i)\<lparr>final_score := Some (s + bonus_from {} {} {} rows i),
                       match_percentage := Some (match_percent (s + bonus_from {} {} {} rows i))\<rparr>"
    by blast
  show ?thesis using s by (simp add: t bonus_from_empty)
qed

lemma diversity_bonus_nonneg: "0 \<le> diversity_bonus rows i"
  by (simp add: diversity_bonus_def)

text \<open>
  The pass on a frame that has the columns it reads, the university's name among them: the
  reranker makes one
  pass in the order of the frame and sorts the result descending by the new score. Row \<open>i\<close>
  gains 0.03 if no earlier row shows its country, 0.02 if none shows its university and 0.01
  if none shows its field; no score decreases; the match percentage is recomputed with the
  cap; and each value of a country, university or field earns the bonus of its kind at most
  once over the frame.
\<close>

lemma reranker_on_named_frame:
  assumes "rows \<noteq> []" and "\<forall>r\<in>set rows. boostable r"
  shows "\<exists>t. diversity_pass {} {} {} rows = Inr t \<and>
           apply_diversity_boosting (Some rows) = Some (sort_values t) \<and>
           length t = length rows \<and>
           (\<forall>i<length rows. \<exists>s s'. final_score (rows ! i) = Some s \<and> final_score (t ! i) = Some s' \<and>
              s' = s + (if first_seen (\<lambda>r. cell_value (country r)) rows i then 0.03 else 0)
                     + (if first_seen (\<lambda>r. cell_value (name_university r)) rows i then 0.02 else 0)
                     + (if first_seen (\<lambda>r. cell_value (field r)) rows i then 0.01 else 0) \<and>
              s \<le> s' \<and>
              match_percentage (t ! i) = Some (min 100 (round1 (s' * 100)))) \<and>
           (\<forall>v. card {i. i < length rows \<and> cell_value (country (rows ! i)) = v \<and>
                         first_seen (\<lambda>r. cell_value (country r)) rows i} \<le> 1) \<and>
           (\<forall>v. card {i. i < length rows \<and> cell_value (name_university (rows ! i)) = v \<and>
                         first_seen (\<lambda>r. cell_value (name_university r)) rows i} \<le> 1) \<and>
           (\<forall>v. card {i. i < length rows \<and> cell_value (field (rows ! i)) = v \<and>
                         first_seen (\<lambda>r. cell_value (field r)) rows i} \<le> 1) \<and>
           mset (sort_values t) = mset t \<and>
           sorted_wrt (\<lambda>x y. the (final_score y) \<le> the (final_score x)) (sort_values t)"
proof -
  from diversity_pass_succeeds [OF assms(2)] obtain t where t: "diversity_pass {} {} {} rows = Inr t"
    by blast
  have app: "apply_diversity_boosting (Some rows) = Some (sort_values t)"
    using assms(1) t by (simp add: apply_diversity_boosting_def)
  have len: "length t = length rows" using diversity_pass_rows [OF t] by simp
  have rows: "\<exists>s s'. final_score (rows ! i) = Some s \<and> final_score (t ! i) = Some s' \<and>
              s' = s + (if first_seen (\<lambda>r. cell_value (country r)) rows i then 0.03 else 0)
                     + (if first_seen (\<lambda>r. cell_value (name_university r)) rows i then 0.02 else 0)
                     + (if first_seen (\<lambda>r. cell_value (field r)) rows i then 0.01 else 0) \<and>
              s \<le> s' \<and>
              match_percentage (t ! i) = Some (min 100 (round1 (s' * 100)))" if "i < length rows" for i
  proof -
    from diversity_pass_scores [OF t that] obtain s where
      "final_score (rows ! i) = Some s" "final_score (t ! i) = Some (s + diversity_bonus rows i)"
      "match_percentage (t ! i) = Some (match_percent (s + diversity_bonus rows i))" by blast
    then show ?thesis using diversity_bonus_nonneg [of rows i]
      by (simp add: diversity_bonus_def match_percent_def)
  qed
  have scored: "\<forall>r\<in>set t. final_score r \<noteq> None"
  proof
    fix r assume "r \<in> set t"
    then obtain i where "i < length t" "r = t ! i" by (auto simp: in_set_conv_nth)
    with rows [of i] len show "final_score r \<noteq> None" by auto
  qed
  from rows have all: "\<forall>i<length rows. \<exists>s s'. final_score (rows ! i) = Some s \<and> final_score (t ! i) = Some s' \<and>
              s' = s + (if first_seen (\<lambda>r. cell_value (country r)) rows i then 0.03 else 0)
                     + (if first_seen (\<lambda>r. cell_value (name_university r)) rows i then 0.02 else 0)
                     + (if first_seen (\<lambda>r. cell_value (field r)) rows i then 0.01 else 0) \<and>
              s \<le> s' \<and>
              match_percentage (t ! i) = Some (min 100 (round1 (s' * 100)))"
    by blast
  have c1: "\<forall>v. card {i. i < length rows \<and> cell_value (country (rows ! i)) = v \<and>
                         first_seen (\<lambda>r. cell_value (country r)) rows i} \<le> 1"
    using first_seen_once [of rows "\<lambda>r. cell_value (country r)"] by blast
  have c2: "\<forall>v. card {i. i < length rows \<and> cell_value (name_university (rows ! i)) = v \<and>
                         first_seen (\<lambda>r. cell_value (name_university r)) rows i} \<le> 1"
    using first_seen_once [of rows "\<lambda>r. cell_value (name_university r)"] by blast
  have c3: "\<forall>v. card {i. i < length rows \<and> cell_value (field (rows ! i)) = v \<and>
                         first_seen (\<lambda>r. cell_value (field r)) rows i} \<le> 1"
    using first_seen_once [of rows "\<lambda>r. cell_value (field r)"] by blast
  have m: "mset (sort_values t) = mset t" by (rule mset_sort_values)
  note s = sorted_sort_values [OF scored]
  show ?thesis
    by (intro exI [of _ t] conjI) (fact t app len all c1 c2 c3 m s)+
qed

subsection \<open>The reranker on the merged catalogue\<close>

lemma merged_columns_names:
  "''name_university'' \<notin> set merged_columns \<and> ''name'' \<in> set merged_columns \<and>
   ''name_program'' \<in> set merged_columns \<and> ''id_university'' \<in> set merged_columns"
  by (simp add: merged_columns_def merge_columns_def programs_columns_def universities_columns_def)

lemma merge_unnamed: "r \<in> set (merge programs universities) \<Longrightarrow> name_university r = Absent"
  by (auto simp: merge_def merged_row_def)

lemma py_filter_subset: "py_filter p xs = Inr ys \<Longrightarrow> set ys \<subseteq> set xs"
proof (induction xs arbitrary: ys)
  case Nil
  then show ?case by simp
next
  case (Cons x xs)
  from Cons.prems obtain b zs where "p x = Inr b" "py_filter p xs = Inr zs"
    "ys = (if b then x # zs else zs)"
    by (auto simp: py_bind_eq_Inr)
  with Cons.IH [of zs] show ?case by auto
qed

lemma filter_programs_subset:
  assumes "merged_data a = Some merged" and "filter_programs a = Inr filtered"
  shows "\<exists>rows. filtered = Some rows \<and> set rows \<subseteq> set merged"
proof -
  from assms obtain d1 d2 d3 d4 d5 where
    d1: "(case field_of_study (user_preferences a) of
            None \<Rightarrow> Inr merged
          | Some f \<Rightarrow> if f = [] then Inr merged else py_filter (field_mask (lower f)) merged) = Inr d1" and
    d2: "(case degree_level (user_preferences a) of
            None \<Rightarrow> Inr d1
          | Some l \<Rightarrow> if l = [] then Inr d1 else py_filter (level_mask (lower l)) d1) = Inr d2" and
    d3: "(case max_tuition (user_preferences a) of
            None \<Rightarrow> Inr d2 | Some m \<Rightarrow> py_filter (tuition_mask m) d2) = Inr d3" and
    d4: "(if preferred_countries (user_preferences a) = [] then Inr d3
          else py_filter (country_mask (map lower (preferred_countries (user_preferences a)))) d3) = Inr d4" and
    d5: "(if language_preference (user_preferences a) = Some ''English only''
          then py_filter language_mask d4 else Inr d4) = Inr d5" and
    f: "filtered = Some d5"
    by (simp add: filter_programs_def Let_def py_bind_eq_Inr) blast
  from d1 have "set d1 \<subseteq> set merged"
    by (auto split: option.splits if_splits dest: py_filter_subset)
  moreover from d2 have "set d2 \<subseteq> set d1"
    by (auto split: option.splits if_splits dest: py_filter_subset)
  moreover from d3 have "set d3 \<subseteq> set d2"
    by (auto split: option.splits if_splits dest: py_filter_subset)
  moreover from d4 have "set d4 \<subseteq> set d3"
    by (auto split: option.splits if_splits dest: py_filter_subset)
  moreover from d5 have "set d5 \<subseteq> set d4"
    by (auto split: option.splits if_splits dest: py_filter_subset)
  ultimately show ?thesis using f by blast
qed

lemma score_row_unnamed:
  assumes "score_row a kw x = Inr y"
  shows "name_university y = name_university x"
proof -
  from score_row_result [OF assms] obtain s f m where "y = x\<lparr>score := s, final_score := f, match_percentage := m\<rparr>"
    by blast
  then show ?thesis by simp
qed

lemma score_programs_unnamed:
  assumes "score_programs a (Some rows) = Inr (Some scored)"
    and "\<forall>r\<in>set rows. name_university r = Absent"
  shows "scored \<noteq> [] \<and> (\<forall>r\<in>set scored. name_university r = Absent)"
proof -
  from score_programs_Some [OF assms(1)] obtain t where
    ne: "rows \<noteq> []" and
    t: "py_map (score_row a (extract_keywords
              (case field_of_study (user_preferences a) of None \<Rightarrow> [] | Some f \<Rightarrow> f))) rows = Inr t" and
    s: "scored = sort_values t" by auto
  from py_map_score_rows [OF t] have len: "length t = length rows"
    and rows: "\<forall>y\<in>set t. \<exists>x\<in>set rows. score_row a (extract_keywords
              (case field_of_study (user_preferences a) of None \<Rightarrow> [] | Some f \<Rightarrow> f)) x = Inr y"
    by blast+
  from len ne have "length (sort_values t) \<noteq> 0" by (simp add: length_sort_values)
  then have "scored \<noteq> []" using s by auto
  moreover have "name_university r = Absent" if "r \<in> set scored" for r
  proof -
    from that s have "r \<in> set t" by (simp add: set_sort_values)
    with rows obtain x where "x \<in> set rows" "score_row a (extract_keywords
              (case field_of_study (user_preferences a) of None \<Rightarrow> [] | Some f \<Rightarrow> f)) x = Inr r" by blast
    with assms(2) score_row_unnamed show ?thesis by metis
  qed
  ultimately show ?thesis by blast
qed

lemma diversity_pass_unnamed:
  assumes "rows \<noteq> []" and "name_university (hd rows) = Absent"
  shows "diversity_pass cs us fs rows = Inl KeyError"
proof -
  from assms(1) obtain r rest where r: "rows = r # rest" by (cases rows) auto
  with assms(2) have "lookup (name_university r) = Inl KeyError" by (simp add: lookup_def)
  then show ?thesis unfolding r by (cases "country r") (simp_all add: lookup_def)
qed

lemma diversity_bonus_first: "diversity_bonus rows 0 = 0.06"
  by (simp add: diversity_bonus_def first_seen_def)

lemma catalogue_merge:
  "merge catalogue_programs catalogue_universities
     = [scenario_B\<lparr>name_university := Absent\<rparr>, scenario_A\<lparr>name_university := Absent\<rparr>]"
  by (simp add: merge_def merged_row_def catalogue_programs_def catalogue_universities_def
        cell_of_def scenario_A_def scenario_B_def)

lemma catalogue_lower: "lower ''Computer Science'' = ''computer science'' \<and> lower ''Master'' = ''master''"
  by (simp add: lower_def lower_char_def)

lemma catalogue_field_B:
  "field_mask ''computer science'' (scenario_B\<lparr>name_university := Absent\<rparr>) = Inr True"
  by (simp add: field_mask_def scenario_B_def lookup_def lower_def lower_char_def)

lemma catalogue_field_A:
  "field_mask ''computer science'' (scenario_A\<lparr>name_university := Absent\<rparr>) = Inr True"
  by (simp add: field_mask_def scenario_A_def lookup_def lower_def lower_char_def)

lemma catalogue_level:
  "level_mask ''master'' (scenario_B\<lparr>name_university := Absent\<rparr>) = Inr True \<and>
   level_mask ''master'' (scenario_A\<lparr>name_university := Absent\<rparr>) = Inr True"
  by (simp add: level_mask_def scenario_A_def scenario_B_def lookup_def lower_def lower_char_def)

lemma catalogue_tuition:
  "tuition_mask 50000 (scenario_B\<lparr>name_university := Absent\<rparr>) = Inr False \<and>
   tuition_mask 50000 (scenario_A\<lparr>name_university := Absent\<rparr>) = Inr True"
  by (simp add: tuition_mask_def scenario_A_def scenario_B_def lookup_def)

lemma catalogue_filter:
  "filter_programs catalogue_assistant = Inr (Some [scenario_A\<lparr>name_university := Absent\<rparr>])"
  by (simp add: filter_programs_def catalogue_assistant_def scenario_assistant_def catalogue_merge
        scenario_preferences_def catalogue_lower catalogue_field_A catalogue_field_B
        catalogue_level catalogue_tuition)

lemma catalogue_fit:
  "calculate_academic_fit (scenario_A\<lparr>name_university := Absent\<rparr>) [''computer'', ''science''] = Inr 1"
  by (simp add: calculate_academic_fit_def scenario_A_def lookup_def str_def lower_def lower_char_def)

lemma catalogue_lang:
  "language_score scenario_preferences (scenario_A\<lparr>name_university := Absent\<rparr>) = Inr 1"
  by (simp add: language_score_def scenario_A_def scenario_preferences_def lookup_def str_def lower_def lower_char_def)

lemma round1_760: "round1 76 = 76"
  using round_half_even_int [of 760] by (simp add: round1_def)

lemma catalogue_row:
  "score_row catalogue_assistant [''computer'', ''science''] (scenario_A\<lparr>name_university := Absent\<rparr>)
     = Inr (scored_A\<lparr>name_university := Absent, final_score := Some 0.76, match_percentage := Some 76\<rparr>)"
  apply (simp add: score_row_def catalogue_fit catalogue_assistant_def scenario_assistant_def catalogue_lang
        living_cost_score_def location_score_def Let_def weighted_total_def criteria_def
        scored_A_def)
  apply (simp add: scenario_A_def scenario_preferences_def lookup_def tuition_score_def present_def round1_760
        calculate_confidence_def match_percent_def ranking_score_def)
  apply (simp add: fun_eq_iff ranking_score_def split: criterion.split)
  done

lemma catalogue_run:
  "score_programs catalogue_assistant (Some [scenario_A\<lparr>name_university := Absent\<rparr>])
     = Inr (Some catalogue_scored)"
proof -
  have kw: "extract_keywords (case field_of_study (user_preferences catalogue_assistant) of
               None \<Rightarrow> [] | Some f \<Rightarrow> f) = [''computer'', ''science'']"
    by (simp add: catalogue_assistant_def scenario_assistant_def scenario_preferences_def scenario_keywords)
  have "sort_values catalogue_scored = catalogue_scored"
    by (simp add: sort_values_def catalogue_scored_def del: not_None_eq)
  then show ?thesis
    by (simp add: score_programs_def kw catalogue_row catalogue_scored_def)
qed

text \<open>
  C3, on the code: the merged frame has no column \<^verbatim>\<open>name_university\<close> (the universities'
  \<^verbatim>\<open>name\<close> keeps its label) and the filter returns some of its rows; so on every frame
  the scorer returns for rows of a loaded catalogue the pass raises KeyError at its first row
  and the reranker returns the frame as it came: no row gains a bonus, though the first row
  shows a first country, university and field, worth 0.06.
\<close>

theorem C3_diversity_reranker:
  "''name_university'' \<notin> set merged_columns \<and>
   (merged_data a = Some (merge programs universities) \<and> filter_programs a = Inr filtered \<longrightarrow>
      (\<exists>kept. filtered = Some kept \<and> set kept \<subseteq> set (merge programs universities))) \<and>
   (set rows \<subseteq> set (merge programs universities) \<and>
    score_programs a (Some rows) = Inr (Some scored) \<longrightarrow>
      scored \<noteq> [] \<and> (\<forall>r\<in>set scored. name_university r = Absent) \<and>
      diversity_bonus scored 0 = 0.06 \<and>
      diversity_pass {} {} {} scored = Inl KeyError \<and>
      apply_diversity_boosting (Some scored) = Some scored)"
proof (intro conjI impI)
  show "''name_university'' \<notin> set merged_columns" using merged_columns_names by blast
next
  assume "merged_data a = Some (merge programs universities) \<and> filter_programs a = Inr filtered"
  then show "\<exists>kept. filtered = Some kept \<and> set kept \<subseteq> set (merge programs universities)"
    using filter_programs_subset [of a "merge programs universities" filtered] by blast
next
  assume h: "set rows \<subseteq> set (merge programs universities) \<and>
    score_programs a (Some rows) = Inr (Some scored)"
  then have "\<forall>r\<in>set rows. name_university r = Absent" using merge_unnamed by blast
  from score_programs_unnamed [OF _ this, of a scored] h
  have s: "scored \<noteq> []" "\<forall>r\<in>set scored. name_university r = Absent" by auto
  then have "name_university (hd scored) = Absent" by simp
  from diversity_pass_unnamed [OF s(1) this]
  have p: "diversity_pass {} {} {} scored = Inl KeyError" .
  show "scored \<noteq> []" by (fact s(1))
  show "\<forall>r\<in>set scored. name_university r = Absent" by (fact s(2))
  show "diversity_bonus scored 0 = 0.06" by (rule diversity_bonus_first)
  show "diversity_pass {} {} {} scored = Inl KeyError" by (fact p)
  show "apply_diversity_boosting (Some scored) = Some scored"
    using s(1) p by (simp add: apply_diversity_boosting_def)
qed

theorem C3_diversity_reranker_witness:
  "merged_data catalogue_assistant = Some (merge catalogue_programs catalogue_universities) \<and>
   filter_programs catalogue_assistant = Inr (Some [scenario_A\<lparr>name_university := Absent\<rparr>]) \<and>
   set [scenario_A\<lparr>name_university := Absent\<rparr>]
     \<subseteq> set (merge catalogue_programs catalogue_universities) \<and>
   score_programs catalogue_assistant (Some [scenario_A\<lparr>name_university := Absent\<rparr>])
     = Inr (Some catalogue_scored) \<and>
   diversity_bonus catalogue_scored 0 = 0.06 \<and>
   diversity_pass {} {} {} catalogue_scored = Inl KeyError \<and>
   apply_diversity_boosting (Some catalogue_scored) = Some catalogue_scored \<and>
   map final_score catalogue_scored = [Some 0.76]"
proof -
  have m: "merged_data catalogue_assistant = Some (merge catalogue_programs catalogue_universities)"
    by (simp add: catalogue_assistant_def)
  have f: "map final_score catalogue_scored = [Some 0.76]" by (simp add: catalogue_scored_def)
  have sub: "set [scenario_A\<lparr>name_university := Absent\<rparr>]
     \<subseteq> set (merge catalogue_programs catalogue_universities)"
    by (simp add: catalogue_merge)
  from C3_diversity_reranker [of catalogue_assistant catalogue_programs catalogue_universities
      "Some [scenario_A\<lparr>name_university := Absent\<rparr>]"
      "[scenario_A\<lparr>name_university := Absent\<rparr>]" catalogue_scored]
    m catalogue_filter catalogue_run f sub
  show ?thesis by blast
qed

subsection \<open>The example cohort, evaluated\<close>

lemma cohort_column: "column_values cohort_frame ''current_gpa'' = [Some 0, Some 2, Some 4]"
  by (simp add: column_values_def cohort_frame_def cohort_student_def)

lemma cohort_mean: "mean [Some 0, Some 2, Some 4] = Some 2"
  by (simp add: mean_def)

lemma cohort_std: "std [Some 0, Some 2, Some 4] = Some 2"
  by (simp add: std_def)

lemma cohort_cols:
  "filter (\<lambda>col. col \<in> set (columns cohort_frame)) candidate_features = [''current_gpa'']"
  by (simp add: cohort_frame_def candidate_features_def)

lemma cohort_filled: "filled_column cohort_frame ''current_gpa'' = [Some 0, Some 2, Some 4]"
  by (simp add: filled_column_def cohort_column fillna_def)

lemma cohort_students_ne: "students cohort_frame \<noteq> []"
  by (simp add: cohort_frame_def)

lemma cohort_normalized:
  "normalize_frame cohort_frame [''current_gpa''] = [[Some (-1)], [Some 0], [Some 1]]"
  by (simp add: normalize_frame_def cohort_filled cohort_column cohort_mean cohort_std)
     (simp add: cohort_frame_def cohort_student_def fillna_def standardize_def)

lemma cohort_build: "build_recommendation_model True cohort_loaded = (cohort_analyzer, True)"
proof -
  have sd: "student_data cohort_loaded = Some cohort_frame" by (simp add: cohort_loaded_def)
  show ?thesis
    unfolding build_recommendation_model_def sd
    by (simp add: cohort_students_ne cohort_cols Let_def cohort_normalized finite_frame_def
          cohort_loaded_def cohort_analyzer_def)
qed

lemma gpa_query_features: "query_features cohort_frame [''current_gpa''] gpa_query = [Some 2]"
  by (simp add: query_features_def query_value_def gpa_query_def)

lemma scenario_query_features:
  "query_features cohort_frame [''current_gpa''] scenario_preferences = [Some 2]"
  by (simp add: query_features_def query_value_def scenario_preferences_def cohort_column cohort_mean)

lemma normalized_column: "frame_column [[Some (-1)], [Some 0], [Some 1]] 0 = [Some (-1), Some 0, Some 1]"
  by (simp add: frame_column_def)

lemma normalized_mean: "mean [Some (-1), Some 0, Some 1] = Some 0"
  by (simp add: mean_def)

lemma normalized_std: "std [Some (-1), Some 0, Some 1] = Some 1"
  by (simp add: std_def)

lemma cohort_normalized_query:
  "normalized_query [[Some (-1)], [Some 0], [Some 1]] [Some 2] = [Some 2]"
  by (simp add: normalized_query_def normalized_column normalized_mean normalized_std standardize_def)

lemma cohort_nearest: "nearest [[-1], [0], [1]] [2] k = take k [2, 1, 0]"
proof -
  have up: "[0..<3] = [0, 1, 2]" by (simp add: upt_rec)
  have d: "squared_distance [2] [-1] = 9" "squared_distance [2] [0] = 4" "squared_distance [2] [1] = 1"
    by (simp_all add: squared_distance_def)
  show ?thesis by (simp add: nearest_def up d numeral_2_eq_2)
qed

lemma cohort_kneighbors:
  "kneighbors \<lparr>n_neighbors = 3, fit_X = Some [[-1], [0], [1]]\<rparr> [Some 2] k =
     (if k = 0 \<or> 3 < k then Inl ValueError else Inr (take k [2, 1, 0]))"
  by (simp add: kneighbors_def cohort_nearest)

lemma cohort_students:
  "students cohort_frame = [cohort_student 0 (Some ''X''), cohort_student 2 None, cohort_student 4 None]"
  by (simp add: cohort_frame_def)

lemma cohort_find_similar_10:
  assumes "query_features cohort_frame [''current_gpa''] prefs = [Some 2]"
  shows "find_similar_students cohort_analyzer prefs 10
           = Some [cohort_student 4 None, cohort_student 2 None, cohort_student 0 (Some ''X'')]"
  by (simp add: find_similar_students_def cohort_analyzer_def assms cohort_normalized_query
        cohort_kneighbors cohort_students)

lemma cohort_find_similar_1:
  assumes "query_features cohort_frame [''current_gpa''] prefs = [Some 2]"
  shows "find_similar_students cohort_analyzer prefs 1 = Some [cohort_student 4 None]"
  by (simp add: find_similar_students_def cohort_analyzer_def assms cohort_normalized_query
        cohort_kneighbors cohort_students)

subsection \<open>The reranked example\<close>

lemma diversity_example_run:
  "\<exists>t. diversity_pass {} {} {} diversity_example = Inr t \<and> map final_score t = [Some 0.86, Some 0.31, Some 0.2]"
  by (simp add: diversity_example_def scenario_scored_def scored_A_def scored_B_def scenario_A_def scenario_B_def lookup_def Let_def)

lemma diversity_example_boostable: "\<forall>r\<in>set diversity_example. boostable r"
  by (simp add: diversity_example_def scenario_scored_def scored_A_def scored_B_def scenario_A_def scenario_B_def boostable_def
        del: not_None_eq)

lemma diversity_example_reranked:
  "diversity_example \<noteq> [] \<and> list_all boostable diversity_example \<and>
   (\<exists>t. diversity_pass {} {} {} diversity_example = Inr t \<and>
        apply_diversity_boosting (Some diversity_example) = Some (sort_values t) \<and>
        map final_score t = [Some 0.86, Some 0.31, Some 0.2])"
proof -
  have ne: "diversity_example \<noteq> []" by (simp add: diversity_example_def)
  from reranker_on_named_frame [OF ne diversity_example_boostable] diversity_example_run
  show ?thesis using ne diversity_example_boostable by (auto simp: list_all_iff)
qed

subsection \<open>The cohort boost\<close>

lemma py_map_succeeds:
  assumes "\<forall>x\<in>set xs. \<exists>y. f x = Inr y"
  shows "\<exists>ys. py_map f xs = Inr ys"
  using assms
proof (induction xs)
  case Nil
  then show ?case by simp
next
  case (Cons x xs)
  then obtain y ys where "f x = Inr y" "py_map f xs = Inr ys" by auto
  then show ?case by simp
qed

lemma popularity_boost_Some:
  "popularity_boost ds (Some c) =
     real (length (filter (\<lambda>d. d = Some c) ds)) / real (max 1 (length (filter (\<lambda>d. d \<noteq> None) ds))) * 0.05"
  by (simp add: popularity_boost_def)

lemma popularity_boost_None: "popularity_boost ds None = 0"
  by (simp add: popularity_boost_def)

lemma popularity_boost_bounds: "0 \<le> popularity_boost ds c \<and> popularity_boost ds c \<le> 0.05"
proof (cases c)
  case None
  then show ?thesis by (simp add: popularity_boost_None)
next
  case (Some x)
  let ?n = "length (filter (\<lambda>d. d = Some x) ds)"
  let ?t = "length (filter (\<lambda>d. d \<noteq> None) ds)"
  have "filter (\<lambda>d. d = Some x) ds = filter (\<lambda>d. d = Some x) (filter (\<lambda>d. d \<noteq> None) ds)"
    by (simp add: conj_commute cong: conj_cong)
  then have "?n \<le> ?t" by (metis length_filter_le)
  then have "real ?n \<le> real (max 1 ?t)" by simp
  then have "real ?n / real (max 1 ?t) \<le> 1" by (simp add: divide_le_eq_1)
  moreover have "0 \<le> real ?n / real (max 1 ?t)" by simp
  ultimately show ?thesis unfolding Some popularity_boost_Some by simp
qed

lemma boost_row_result:
  assumes "boost_row ds r = Inr r'" and "final_score r = Some s"
  shows "final_score r' = Some (s + popularity_boost ds (cell_value (country r))) \<and>
         student_data_boost r' = Some (popularity_boost ds (cell_value (country r))) \<and>
         country r' = country r \<and>
         (match_percentage r \<noteq> None \<longrightarrow>
            match_percentage r' = Some (match_percent (s + popularity_boost ds (cell_value (country r)))))"
  using assms
  by (auto simp: boost_row_def py_bind_eq_Inr lookup_Inr Let_def split: option.splits)

lemma boost_row_succeeds:
  assumes "country r \<noteq> Absent"
  shows "\<exists>r'. boost_row ds r = Inr r'"
proof -
  from assms have "lookup (country r) = Inr (cell_value (country r))" by (simp add: lookup_Inr)
  then show ?thesis by (simp add: boost_row_def Let_def split: option.splits)
qed

lemma find_similar_no_model: "model a = None \<Longrightarrow> find_similar_students a prefs n = None"
  by (simp add: find_similar_students_def)

lemma enhance_noop:
  assumes "find_similar_students a prefs 10 = None \<or> find_similar_students a prefs 10 = Some []"
  shows "enhance_recommendations a recs prefs = recs"
proof -
  have "enhance_body a sd rows prefs = Inr rows" for sd rows
    using assms by (auto simp: enhance_body_def)
  then show ?thesis
    by (simp add: enhance_recommendations_def split: option.splits)
qed

text \<open>
  C4, as the code has it: with neighbours found, every candidate's boost is the number of
  neighbours whose destination is the candidate's country, divided by the number of
  neighbours that have a destination (at least 1), times 0.05; it lies in [0, 0.05] and is
  added to the final score, and the frame is sorted again. With no model, no result of the
  query or no neighbour, \<open>enhance_recommendations\<close> returns its input.
\<close>

theorem C4_cohort_enhancement:
  "(find_similar_students a prefs 10 = Some similar \<and> similar \<noteq> [] \<and>
    student_data a = Some sd \<and> students sd \<noteq> [] \<and>
    ''final_destination_country'' \<in> set (columns sd) \<and> rows \<noteq> [] \<and>
    (\<forall>r\<in>set rows. country r \<noteq> Absent \<and> final_score r \<noteq> None) \<longrightarrow>
    (\<exists>enhanced. enhance_recommendations a (Some rows) prefs = Some (sort_values enhanced) \<and>
       length enhanced = length rows \<and>
       (\<forall>i<length rows. \<exists>s b.
          final_score (rows ! i) = Some s \<and>
          b = real (case cell_value (country (rows ! i)) of
                      None \<Rightarrow> 0
                    | Some c \<Rightarrow> length (filter (\<lambda>st. final_destination_country st = Some c) similar))
              / real (max 1 (length (filter (\<lambda>st. final_destination_country st \<noteq> None) similar)))
              * 0.05 \<and>
          0 \<le> b \<and> b \<le> 0.05 \<and>
          final_score (enhanced ! i) = Some (s + b) \<and>
          student_data_boost (enhanced ! i) = Some b))) \<and>
   (model a' = None \<or> find_similar_students a' prefs' 10 = None \<or>
    find_similar_students a' prefs' 10 = Some [] \<longrightarrow>
    enhance_recommendations a' recs prefs' = recs)"
proof (intro conjI impI)
  assume "model a' = None \<or> find_similar_students a' prefs' 10 = None \<or>
    find_similar_students a' prefs' 10 = Some []"
  then have "find_similar_students a' prefs' 10 = None \<or> find_similar_students a' prefs' 10 = Some []"
    using find_similar_no_model [of a' prefs' 10] by blast
  then show "enhance_recommendations a' recs prefs' = recs" by (rule enhance_noop)
next
  assume h: "find_similar_students a prefs 10 = Some similar \<and> similar \<noteq> [] \<and>
    student_data a = Some sd \<and> students sd \<noteq> [] \<and>
    ''final_destination_country'' \<in> set (columns sd) \<and> rows \<noteq> [] \<and>
    (\<forall>r\<in>set rows. country r \<noteq> Absent \<and> final_score r \<noteq> None)"
  let ?ds = "map final_destination_country similar"
  from h have "\<forall>r\<in>set rows. \<exists>r'. boost_row ?ds r = Inr r'" using boost_row_succeeds by blast
  from py_map_succeeds [OF this] obtain enhanced where
    e: "py_map (boost_row ?ds) rows = Inr enhanced" by blast
  from py_map_Inr [OF e] have l: "list_all2 (\<lambda>x y. boost_row ?ds x = Inr y) rows enhanced" .
  then have len: "length enhanced = length rows" by (simp add: list_all2_lengthD)
  have row: "\<exists>s b. final_score (rows ! i) = Some s \<and>
          b = real (case cell_value (country (rows ! i)) of
                      None \<Rightarrow> 0
                    | Some c \<Rightarrow> length (filter (\<lambda>st. final_destination_country st = Some c) similar))
              / real (max 1 (length (filter (\<lambda>st. final_destination_country st \<noteq> None) similar)))
              * 0.05 \<and>
          0 \<le> b \<and> b \<le> 0.05 \<and>
          final_score (enhanced ! i) = Some (s + b) \<and>
          student_data_boost (enhanced ! i) = Some b" if "i < length rows" for i
  proof -
    from that h obtain s where s: "final_score (rows ! i) = Some s" by (metis nth_mem not_None_eq)
    from l that have "boost_row ?ds (rows ! i) = Inr (enhanced ! i)" by (simp add: list_all2_conv_all_nth)
    note br = boost_row_result [OF this s]
    let ?b = "popularity_boost ?ds (cell_value (country (rows ! i)))"
    have "?b = real (case cell_value (country (rows ! i)) of
                      None \<Rightarrow> 0
                    | Some c \<Rightarrow> length (filter (\<lambda>st. final_destination_country st = Some c) similar))
              / real (max 1 (length (filter (\<lambda>st. final_destination_country st \<noteq> None) similar)))
              * 0.05"
      by (simp add: popularity_boost_def length_filter_map comp_def split: option.splits)
    with br s popularity_boost_bounds [of ?ds "cell_value (country (rows ! i))"] show ?thesis by metis
  qed
  have ex: "list_ex (\<lambda>r. final_score r \<noteq> None) enhanced"
  proof -
    from h have "0 < length rows" by simp
    from row [OF this] have "final_score (enhanced ! 0) \<noteq> None" by auto
    moreover have "enhanced ! 0 \<in> set enhanced" using len h by simp
    ultimately show ?thesis unfolding list_ex_iff by blast
  qed
  have "enhance_body a sd rows prefs = Inr (sort_values enhanced)"
    using h e ex by (simp add: enhance_body_def)
  then have "enhance_recommendations a (Some rows) prefs = Some (sort_values enhanced)"
    using h by (simp add: enhance_recommendations_def)
  with len row show "\<exists>enhanced. enhance_recommendations a (Some rows) prefs = Some (sort_values enhanced) \<and>
       length enhanced = length rows \<and>
       (\<forall>i<length rows. \<exists>s b.
          final_score (rows ! i) = Some s \<and>
          b = real (case cell_value (country (rows ! i)) of
                      None \<Rightarrow> 0
                    | Some c \<Rightarrow> length (filter (\<lambda>st. final_destination_country st = Some c) similar))
              / real (max 1 (length (filter (\<lambda>st. final_destination_country st \<noteq> None) similar)))
              * 0.05 \<and>
          0 \<le> b \<and> b \<le> 0.05 \<and>
          final_score (enhanced ! i) = Some (s + b) \<and>
          student_data_boost (enhanced ! i) = Some b)"
    by blast
qed

lemma cohort_neighbours:
  assumes "model a = Some \<lparr>n_neighbors = 3, fit_X = Some [[-1], [0], [1]]\<rparr>"
    and "normalized_features a = Some [[Some (-1)], [Some 0], [Some 1]]"
    and "feature_columns a = Some [''current_gpa'']"
    and "student_data a = Some sd"
    and "students sd = [cohort_student 0 (Some ''X''), cohort_student 2 None, cohort_student 4 None]"
    and "query_features sd [''current_gpa''] prefs = [Some 2]"
  shows "find_similar_students a prefs 10
           = Some [cohort_student 4 None, cohort_student 2 None, cohort_student 0 (Some ''X'')]"
  by (simp add: find_similar_students_def assms cohort_normalized_query cohort_kneighbors)

lemma cohort_boost_A:
  "boost_row [None, None, Some ''X''] (scored_A)
     = Inr ((scored_A)\<lparr>student_data_boost := Some 0.05, final_score := Some 0.85,
              match_percentage := Some (match_percent 0.85)\<rparr>)"
  by (simp add: boost_row_def scenario_scored_def scored_A_def scored_B_def scenario_A_def lookup_def popularity_boost_def Let_def)

lemma cohort_boost_B:
  "boost_row [None, None, Some ''X''] (scored_B)
     = Inr ((scored_B)\<lparr>student_data_boost := Some 0, final_score := Some 0.25,
              match_percentage := Some (match_percent 0.25)\<rparr>)"
  by (simp add: boost_row_def scenario_scored_def scored_A_def scored_B_def scenario_B_def lookup_def popularity_boost_def Let_def)

lemma scenario_scored_list: "scenario_scored = [scored_A, scored_B]"
  by (simp add: scenario_scored_def scored_A_def scored_B_def)

lemma cohort_enhanced:
  "enhance_recommendations cohort_analyzer (Some scenario_scored) scenario_preferences
     = Some [(scored_A)\<lparr>student_data_boost := Some 0.05, final_score := Some 0.85,
               match_percentage := Some (match_percent 0.85)\<rparr>,
             (scored_B)\<lparr>student_data_boost := Some 0, final_score := Some 0.25,
               match_percentage := Some (match_percent 0.25)\<rparr>]"
proof -
  have f: "find_similar_students cohort_analyzer scenario_preferences 10
           = Some [cohort_student 4 None, cohort_student 2 None, cohort_student 0 (Some ''X'')]"
    by (rule cohort_find_similar_10 [OF scenario_query_features])
  have d: "map final_destination_country
             [cohort_student 4 None, cohort_student 2 None, cohort_student 0 (Some ''X'')]
           = [None, None, Some ''X'']"
    by (simp add: cohort_student_def)
  have p: "py_map (boost_row [None, None, Some ''X'']) scenario_scored
           = Inr [(scored_A)\<lparr>student_data_boost := Some 0.05, final_score := Some 0.85,
               match_percentage := Some (match_percent 0.85)\<rparr>,
             (scored_B)\<lparr>student_data_boost := Some 0, final_score := Some 0.25,
               match_percentage := Some (match_percent 0.25)\<rparr>]"
    by (subst scenario_scored_list) (simp add: cohort_boost_A cohort_boost_B)
  have s: "sort_values [(scored_A)\<lparr>student_data_boost := Some 0.05, final_score := Some 0.85,
               match_percentage := Some (match_percent 0.85)\<rparr>,
             (scored_B)\<lparr>student_data_boost := Some 0, final_score := Some 0.25,
               match_percentage := Some (match_percent 0.25)\<rparr>]
         = [(scored_A)\<lparr>student_data_boost := Some 0.05, final_score := Some 0.85,
               match_percentage := Some (match_percent 0.85)\<rparr>,
             (scored_B)\<lparr>student_data_boost := Some 0, final_score := Some 0.25,
               match_percentage := Some (match_percent 0.25)\<rparr>]"
    by (rule sort_values_pair [THEN conjunct2, of _ "0.85" _ "0.25"]) simp_all
  have b: "enhance_body cohort_analyzer cohort_frame scenario_scored scenario_preferences
     = Inr [(scored_A)\<lparr>student_data_boost := Some 0.05, final_score := Some 0.85,
               match_percentage := Some (match_percent 0.85)\<rparr>,
             (scored_B)\<lparr>student_data_boost := Some 0, final_score := Some 0.25,
               match_percentage := Some (match_percent 0.25)\<rparr>]"
    using s unfolding enhance_body_def f
    by (simp add: cohort_student_def p cohort_frame_def del: not_None_eq)
  have ne: "scenario_scored \<noteq> []" by (simp add: scenario_scored_def scored_A_def scored_B_def)
  have sd: "student_data cohort_analyzer = Some cohort_frame" by (simp add: cohort_analyzer_def)
  show ?thesis
    by (simp add: enhance_recommendations_def ne sd b cohort_students)
qed

lemma cohort_similar:
  "find_similar_students cohort_analyzer scenario_preferences 10
     = Some [cohort_student 4 None, cohort_student 2 None, cohort_student 0 (Some ''X'')]"
  by (rule cohort_find_similar_10 [OF scenario_query_features])

theorem C4_cohort_enhancement_witness:
  "find_similar_students cohort_analyzer scenario_preferences 10
     = Some [cohort_student 4 None, cohort_student 2 None, cohort_student 0 (Some ''X'')] \<and>
   student_data cohort_analyzer = Some cohort_frame \<and>
   ''final_destination_country'' \<in> set (columns cohort_frame) \<and>
   (\<exists>enhanced. enhance_recommendations cohort_analyzer (Some scenario_scored) scenario_preferences
                  = Some (sort_values enhanced) \<and> length enhanced = length scenario_scored) \<and>
   model cohort_loaded = None \<and>
   enhance_recommendations cohort_loaded (Some scenario_scored) scenario_preferences
     = Some scenario_scored"
proof -
  have sd: "student_data cohort_analyzer = Some cohort_frame" by (simp add: cohort_analyzer_def)
  have col: "''final_destination_country'' \<in> set (columns cohort_frame)" by (simp add: cohort_frame_def)
  have rows: "scenario_scored \<noteq> []"
    "\<forall>r\<in>set scenario_scored. country r \<noteq> Absent \<and> final_score r \<noteq> None"
    by (simp_all add: scenario_scored_def scored_A_def scored_B_def scenario_A_def scenario_B_def
          del: not_None_eq)
  have m: "model cohort_loaded = None" by (simp add: cohort_loaded_def)
  have ne: "[cohort_student 4 None, cohort_student 2 None, cohort_student 0 (Some ''X'')] \<noteq> []"
    "students cohort_frame \<noteq> []"
    by (simp_all add: cohort_students)
  note c4 = C4_cohort_enhancement [of cohort_analyzer scenario_preferences
      "[cohort_student 4 None, cohort_student 2 None, cohort_student 0 (Some ''X'')]"
      cohort_frame scenario_scored cohort_loaded scenario_preferences "Some scenario_scored"]
  from c4 [THEN conjunct1] cohort_similar ne sd col rows
  have 1: "\<exists>enhanced. enhance_recommendations cohort_analyzer (Some scenario_scored) scenario_preferences
                  = Some (sort_values enhanced) \<and> length enhanced = length scenario_scored"
    by blast
  from c4 [THEN conjunct2] m
  have 2: "enhance_recommendations cohort_loaded (Some scenario_scored) scenario_preferences
     = Some scenario_scored"
    by blast
  from cohort_similar sd col 1 m 2 show ?thesis by blast
qed

text \<open>
  C4 as stated fails: of three neighbours one went to X and two have no destination; the
  candidate in X is boosted by 1/1 * 0.05, not by 1/3 * 0.05.
\<close>

theorem C4_cohort_enhancement_counterexample:
  "find_similar_students cohort_analyzer scenario_preferences 10
     = Some [cohort_student 4 None, cohort_student 2 None, cohort_student 0 (Some ''X'')] \<and>
   country scored_A = Val ''X'' \<and>
   map student_data_boost
     (the (enhance_recommendations cohort_analyzer (Some [scored_A, scored_B]) scenario_preferences))
     = [Some 0.05, Some 0] \<and>
   (0.05 :: real) \<noteq> 1 / 3 * 0.05"
  using cohort_similar cohort_enhanced
  by (simp add: scenario_scored_def scored_A_def scenario_A_def)

text \<open>
  C10: when the pass of the reranker raises, \<open>apply_diversity_boosting\<close> returns its
  input, and so does \<open>enhance_recommendations\<close> when its body raises; each stage returns
  either its input or the result of a body that ran to its end.
\<close>

theorem C10_stages_catch_errors:
  "(diversity_pass {} {} {} rows = Inl e \<longrightarrow> apply_diversity_boosting (Some rows) = Some rows) \<and>
   (student_data a = Some sd \<and> enhance_body a sd rows' prefs = Inl e' \<longrightarrow>
      enhance_recommendations a (Some rows') prefs = Some rows') \<and>
   (apply_diversity_boosting t = t \<or>
      (\<exists>rs d. t = Some rs \<and> diversity_pass {} {} {} rs = Inr d \<and>
              apply_diversity_boosting t = Some (sort_values d))) \<and>
   (enhance_recommendations a t' prefs = t' \<or>
      (\<exists>rs fr d. t' = Some rs \<and> student_data a = Some fr \<and> enhance_body a fr rs prefs = Inr d \<and>
                 enhance_recommendations a t' prefs = Some d))"
proof (intro conjI impI)
  assume "diversity_pass {} {} {} rows = Inl e"
  then show "apply_diversity_boosting (Some rows) = Some rows"
    by (simp add: apply_diversity_boosting_def)
next
  assume "student_data a = Some sd \<and> enhance_body a sd rows' prefs = Inl e'"
  then show "enhance_recommendations a (Some rows') prefs = Some rows'"
    by (simp add: enhance_recommendations_def)
next
  show "apply_diversity_boosting t = t \<or>
      (\<exists>rs d. t = Some rs \<and> diversity_pass {} {} {} rs = Inr d \<and>
              apply_diversity_boosting t = Some (sort_values d))"
    by (auto simp: apply_diversity_boosting_def split: option.splits sum.splits)
next
  show "enhance_recommendations a t' prefs = t' \<or>
      (\<exists>rs fr d. t' = Some rs \<and> student_data a = Some fr \<and> enhance_body a fr rs prefs = Inr d \<and>
                 enhance_recommendations a t' prefs = Some d)"
    by (auto simp: enhance_recommendations_def split: option.splits sum.splits)
qed

lemma unnamed_pass: "diversity_pass {} {} {} unnamed_catalogue = Inl KeyError"
  by (simp add: unnamed_catalogue_def scenario_scored_def scored_A_def scored_B_def scenario_A_def
        lookup_def)

lemma no_destination_similar:
  "find_similar_students cohort_no_destination scenario_preferences 10
     = Some [cohort_student 4 None, cohort_student 2 None, cohort_student 0 (Some ''X'')]"
proof -
  let ?sd = "cohort_frame\<lparr>columns := [''student_id'', ''current_gpa'']\<rparr>"
  have st: "students ?sd = [cohort_student 0 (Some ''X''), cohort_student 2 None, cohort_student 4 None]"
    by (simp add: cohort_students)
  have cv: "column_values ?sd ''current_gpa'' = [Some 0, Some 2, Some 4]"
    using cohort_column by (simp add: column_values_def)
  have q: "query_features ?sd [''current_gpa''] scenario_preferences = [Some 2]"
    by (simp add: query_features_def query_value_def scenario_preferences_def cv cohort_mean)
  show ?thesis
    by (rule cohort_neighbours [OF _ _ _ _ st q])
       (simp_all add: cohort_no_destination_def cohort_analyzer_def)
qed

lemma no_destination_body:
  "enhance_body cohort_no_destination (cohort_frame\<lparr>columns := [''student_id'', ''current_gpa'']\<rparr>)
     scenario_scored scenario_preferences = Inl KeyError"
  unfolding enhance_body_def no_destination_similar by simp

theorem C10_stages_catch_errors_witness:
  "diversity_pass {} {} {} unnamed_catalogue = Inl KeyError \<and>
   apply_diversity_boosting (Some unnamed_catalogue) = Some unnamed_catalogue \<and>
   student_data cohort_no_destination
     = Some (cohort_frame\<lparr>columns := [''student_id'', ''current_gpa'']\<rparr>) \<and>
   enhance_body cohort_no_destination (cohort_frame\<lparr>columns := [''student_id'', ''current_gpa'']\<rparr>)
     scenario_scored scenario_preferences = Inl KeyError \<and>
   enhance_recommendations cohort_no_destination (Some scenario_scored) scenario_preferences
     = Some scenario_scored"
proof -
  have sd: "student_data cohort_no_destination
     = Some (cohort_frame\<lparr>columns := [''student_id'', ''current_gpa'']\<rparr>)"
    by (simp add: cohort_no_destination_def)
  from C10_stages_catch_errors [of unnamed_catalogue KeyError cohort_no_destination
      "cohort_frame\<lparr>columns := [''student_id'', ''current_gpa'']\<rparr>" scenario_scored
      scenario_preferences KeyError]
    unnamed_pass sd no_destination_body
  show ?thesis by simp
qed

text \<open>
  C7, on the code: the index built from the grades 0, 2, 4 has the training mean 2 and
  deviation 2, so the query 2 standardizes to 0. The code standardizes with the mean and
  deviation of the normalized frame (0 and 1), leaves the query at 2 and returns the record
  with the grade 4 as the nearest, not the one with the grade 2.
\<close>

theorem C7_query_normalisation:
  "build_recommendation_model True cohort_loaded = (cohort_analyzer, True) \<and>
   query_features cohort_frame [''current_gpa''] gpa_query = [Some 2] \<and>
   normalized_query [[Some (-1)], [Some 0], [Some 1]] [Some 2] = [Some 2] \<and>
   standardize (Some 2) (mean (filled_column cohort_frame ''current_gpa''))
     (std (filled_column cohort_frame ''current_gpa'')) = Some 0 \<and>
   find_similar_students cohort_analyzer gpa_query 1 = Some [cohort_student 4 None]"
  using cohort_build gpa_query_features cohort_normalized_query
    cohort_find_similar_1 [OF gpa_query_features]
  by (simp add: cohort_filled cohort_mean cohort_std standardize_def)

subsection \<open>A request that no program matches\<close>

lemma empty_filter_fails:
  assumes "filter_programs a = Inr (Some [])"
  shows "recommendation_pipeline an a = Inl AttributeError"
  by (simp add: recommendation_pipeline_def assms score_programs_def apply_diversity_boosting_def
        enhance_recommendations_def)

lemma medicine_lower: "lower ''Medicine'' = ''medicine''"
  by (simp add: lower_def lower_char_def)

lemma medicine_mask_A: "field_mask ''medicine'' scenario_A = Inr False"
  by (simp add: field_mask_def scenario_A_def lookup_def lower_def lower_char_def)

lemma medicine_mask_B: "field_mask ''medicine'' scenario_B = Inr False"
  by (simp add: field_mask_def scenario_B_def lookup_def lower_def lower_char_def)

lemma medicine_filter:
  "filter_programs (scenario_assistant\<lparr>user_preferences := enrich_preferences medicine_request,
                                      criteria_weights := default_weights\<rparr>) = Inr (Some [])"
  by (simp add: filter_programs_def scenario_assistant_def enrich_preferences_def
        medicine_request_def medicine_lower medicine_mask_A medicine_mask_B)

text \<open>
  C8, on the code: a valid request that no program matches is filtered to the empty frame
  without an error, and the handler answers it with the status 500.
\<close>

theorem C8_empty_result:
  "validate_preferences medicine_request \<and>
   filter_programs (scenario_assistant\<lparr>user_preferences := enrich_preferences medicine_request,
                                      criteria_weights := default_weights\<rparr>) = Inr (Some []) \<and>
   get_recommendations cohort_analyzer scenario_assistant medicine_request = Failure 500"
proof -
  have v: "validate_preferences medicine_request"
    by (simp add: validate_preferences_def medicine_request_def)
  from empty_filter_fails [OF medicine_filter, of cohort_analyzer] v medicine_filter
  show ?thesis by (simp add: get_recommendations_def)
qed

end
